theory Spec2Isabelle
  imports Complex_Main "HOL-Library.Sublist"
begin

section \<open>Data model\<close>

text \<open>
  The relay server keeps one client socket \<open>ws\<close> and one provider client per
  connection pair. A socket is identified by a number. Strings are lists of
  code units.
\<close>

type_synonym ws = nat

text \<open>
  A provider or client event is a JSON object. The handlers read only its
  \<open>type\<close>, the role of its \<open>item\<close> (\<open>event.item?.role\<close>, absent when there is no
  item) and its \<open>text\<close>; everything else travels along unread in \<open>ev_rest\<close>.
\<close>

record event =
  ev_type :: string
  ev_item_role :: "string option"
  ev_text :: "string option"
  ev_rest :: string

text \<open>The value stored in \<open>connectionStates\<close> for a socket: \<open>{ ragMode: ... }\<close>.\<close>

record conn_state =
  ragMode :: bool

text \<open>
  The module-level variables of the server: the two tables of connections and
  the three variables \<open>isProcessingRAG\<close>, \<open>userTranscriptForRAG\<close> and
  \<open>isRAGActiveThisTurn\<close>, declared once for the whole process. The set
  \<open>wsConnections\<close> is a list without repetitions, in insertion order, which is
  the order \<open>forEach\<close> visits.
\<close>

record server =
  connectionStates :: "ws \<rightharpoonup> conn_state"
  wsConnections :: "ws list"
  isProcessingRAG :: bool
  userTranscriptForRAG :: string
  isRAGActiveThisTurn :: bool

definition initial_server :: server where
  "initial_server =
     \<lparr>connectionStates = Map.empty, wsConnections = [],
      isProcessingRAG = False, userTranscriptForRAG = [], isRAGActiveThisTurn = False\<rparr>"

text \<open>
  What a call of \<open>client.realtime.send(type, data)\<close> carries: a client event
  passed on, an assistant message item with a text, or the request to speak.
\<close>

datatype payload =
    Forward event
  | AssistantItem string
  | SpeakResponse

text \<open>
  What a handler does to the outside: \<open>ws.send(JSON.stringify(event))\<close> and
  \<open>ws.close()\<close> on the client socket of a pair, \<open>client.realtime.send\<close> to the
  provider of a pair, and the call of \<open>performRAGProcess\<close> that is started and
  not awaited.
\<close>

datatype effect =
    WsSend ws event
  | WsClose ws
  | RealtimeSend ws string payload
  | PerformRAGProcess ws string

section \<open>The provider event handler\<close>

text \<open>
  \<open>event.type.startsWith('response.') || (event.type === 'conversation.item.created'
  && event.item?.role === 'assistant')\<close>
\<close>

definition is_response_construction :: "event \<Rightarrow> bool" where
  "is_response_construction e \<longleftrightarrow>
     prefix ''response.'' (ev_type e) \<or>
     (ev_type e = ''conversation.item.created'' \<and> ev_item_role e = Some ''assistant'')"

text \<open>\<open>connectionStates.get(ws)?.ragMode === true\<close>\<close>

definition ragMode_on :: "server \<Rightarrow> ws \<Rightarrow> bool" where
  "ragMode_on s w = (case connectionStates s w of None \<Rightarrow> False | Some st \<Rightarrow> ragMode st)"

text \<open>The block for \<open>input_audio_buffer.speech_started\<close>.\<close>

definition speech_started_step :: "ws \<Rightarrow> event \<Rightarrow> server \<Rightarrow> server" where
  "speech_started_step w e s =
     (if ev_type e = ''input_audio_buffer.speech_started'' then
        (let s1 = s\<lparr>userTranscriptForRAG := []\<rparr> in
         if ragMode_on s1 w \<and> \<not> isProcessingRAG s1
         then s1\<lparr>isRAGActiveThisTurn := True\<rparr>
         else s1\<lparr>isRAGActiveThisTurn := False\<rparr>)
      else s)"

text \<open>
  The block for \<open>response.audio_transcript.delta\<close>: \<open>if (event.text)\<close> holds for
  a text that is present and not empty.
\<close>

definition transcript_delta_step :: "event \<Rightarrow> server \<Rightarrow> server" where
  "transcript_delta_step e s =
     (if isRAGActiveThisTurn s \<and> ev_type e = ''response.audio_transcript.delta'' then
        (case ev_text e of
           None \<Rightarrow> s
         | Some t \<Rightarrow> if t \<noteq> [] then s\<lparr>userTranscriptForRAG := userTranscriptForRAG s @ t\<rparr> else s)
      else s)"

text \<open>
  The block for \<open>response.audio_transcript.done\<close>. It returns the new state, the
  orchestrator call it starts, and \<open>shouldRelayEvent\<close>. \<open>String.prototype.trim\<close>
  is the parameter \<open>trim\<close>.
\<close>

definition transcript_done_step ::
  "(string \<Rightarrow> string) \<Rightarrow> ws \<Rightarrow> event \<Rightarrow> server \<Rightarrow> server \<times> effect list \<times> bool" where
  "transcript_done_step trim w e s =
     (if isRAGActiveThisTurn s \<and> ev_type e = ''response.audio_transcript.done'' then
        (let s1 = s\<lparr>isRAGActiveThisTurn := False\<rparr> in
         if trim (userTranscriptForRAG s1) \<noteq> []
         then (s1\<lparr>isProcessingRAG := True\<rparr>,
               [PerformRAGProcess w (trim (userTranscriptForRAG s1))], False)
         else (s1\<lparr>isProcessingRAG := False\<rparr>, [], True))
      else (s, [], True))"

text \<open>
  The handler of \<open>client.realtime.on("server.*")\<close> of the pair of socket \<open>w\<close>. The
  block for \<open>input_audio_buffer.speech_stopped\<close> only logs.
\<close>

definition server_event_handler ::
  "(string \<Rightarrow> string) \<Rightarrow> ws \<Rightarrow> event \<Rightarrow> server \<Rightarrow> server \<times> effect list" where
  "server_event_handler trim w e s =
     (if isProcessingRAG s \<and> is_response_construction e then (s, [])
      else
        (let s1 = speech_started_step w e s;
             s2 = transcript_delta_step e s1;
             (s3, started, shouldRelayEvent) = transcript_done_step trim w e s2
         in (s3, started @ (if shouldRelayEvent then [WsSend w e] else []))))"

text \<open>Provider events of one pair, handled one after the other.\<close>

fun server_events ::
  "(string \<Rightarrow> string) \<Rightarrow> ws \<Rightarrow> event list \<Rightarrow> server \<Rightarrow> server \<times> effect list" where
  "server_events trim w [] s = (s, [])"
| "server_events trim w (e # es) s =
     (let (s1, fx1) = server_event_handler trim w e s;
          (s2, fx2) = server_events trim w es s1
      in (s2, fx1 @ fx2))"

text \<open>
  An instance of \<open>trim\<close> for the examples. A character of the model stands
  for the code unit of the same number, so its strings are those with code
  units below 256; among these, \<open>String.prototype.trim\<close> strips tab, line feed,
  vertical tab, form feed, carriage return, space and no-break space from both
  ends.
\<close>

definition is_space :: "char \<Rightarrow> bool" where
  "is_space c \<longleftrightarrow>
     c \<in> set [CHR 0x09, CHR 0x0A, CHR 0x0B, CHR 0x0C, CHR 0x0D, CHR '' '', CHR 0xA0]"

definition trim_blanks :: "string \<Rightarrow> string" where
  "trim_blanks t = rev (dropWhile is_space (rev (dropWhile is_space t)))"

text \<open>The same handler in \<open>index.js\<close>, the relay without interception.\<close>

definition index_server_event_handler :: "ws \<Rightarrow> event \<Rightarrow> effect list" where
  "index_server_event_handler w e = [WsSend w e]"

section \<open>The client message path\<close>

text \<open>
  A message from the client, as \<open>JSON.parse\<close> reads it: data that does not
  parse to an event object (the \<open>catch\<close> block logs and drops it), or the event
  it encodes.
\<close>

datatype client_data =
    Malformed string
  | Encoded event

definition messageHandler :: "ws \<Rightarrow> client_data \<Rightarrow> server \<Rightarrow> effect list" where
  "messageHandler w d s =
     (case d of
        Malformed raw \<Rightarrow> []
      | Encoded e \<Rightarrow>
          if (isRAGActiveThisTurn s \<or> isProcessingRAG s) \<and> ev_type e = ''response.create''
          then []
          else [RealtimeSend w (ev_type e) (Forward e)])"

text \<open>
  What the closure of one connection holds besides the socket: whether the
  provider client reports connected, and \<open>messageQueue\<close>.
\<close>

record pair =
  isConnected :: bool
  messageQueue :: "client_data list"

definition new_pair :: pair where
  "new_pair = \<lparr>isConnected = False, messageQueue = []\<rparr>"

text \<open>The handler of \<open>ws.on("message")\<close>.\<close>

definition ws_on_message :: "ws \<Rightarrow> client_data \<Rightarrow> server \<Rightarrow> pair \<Rightarrow> pair \<times> effect list" where
  "ws_on_message w d s p =
     (if \<not> isConnected p then (p\<lparr>messageQueue := messageQueue p @ [d]\<rparr>, [])
      else (p, messageHandler w d s))"

text \<open>
  \<open>while (messageQueue.length) { messageHandler(messageQueue.shift()); }\<close>. The
  handler has no \<open>await\<close>, so each call runs to its end before the next.
\<close>

function drain_queue :: "ws \<Rightarrow> server \<Rightarrow> pair \<Rightarrow> pair \<times> effect list" where
  "drain_queue w s p =
     (case messageQueue p of
        [] \<Rightarrow> (p, [])
      | d # q \<Rightarrow>
          (case drain_queue w s (p\<lparr>messageQueue := q\<rparr>) of
             (p', fx) \<Rightarrow> (p', messageHandler w d s @ fx)))"
  by pat_completeness auto
termination
  by (relation "measure (\<lambda>(w, s, p). length (messageQueue p))") auto

declare drain_queue.simps [simp del]

text \<open>The events among client messages, in order: the messages that parse.\<close>

fun parsed_events :: "client_data list \<Rightarrow> event list" where
  "parsed_events [] = []"
| "parsed_events (Malformed raw # ds) = parsed_events ds"
| "parsed_events (Encoded e # ds) = e # parsed_events ds"

text \<open>\<open>response.create\<close> while a turn is armed or a run is in flight.\<close>

definition blocked_response_create :: "server \<Rightarrow> event \<Rightarrow> bool" where
  "blocked_response_create s e \<longleftrightarrow>
     (isRAGActiveThisTurn s \<or> isProcessingRAG s) \<and> ev_type e = ''response.create''"

text \<open>
  The end of the connection handler, once \<open>await client.connect()\<close> has
  settled: on an error the socket is closed, otherwise the queue is replayed.
\<close>

datatype connect_outcome =
    Connected
  | ConnectError string

definition after_connect :: "ws \<Rightarrow> connect_outcome \<Rightarrow> server \<Rightarrow> pair \<Rightarrow> pair \<times> effect list" where
  "after_connect w r s p =
     (case r of
        ConnectError m \<Rightarrow> (p, [WsClose w])
      | Connected \<Rightarrow> drain_queue w s (p\<lparr>isConnected := True\<rparr>))"

text \<open>Messages of one pair, each handled in the server state it arrives in.\<close>

fun ws_messages :: "ws \<Rightarrow> (client_data \<times> server) list \<Rightarrow> pair \<Rightarrow> pair \<times> effect list" where
  "ws_messages w [] p = (p, [])"
| "ws_messages w ((d, s) # ds) p =
     (case ws_on_message w d s p of
        (p1, fx1) \<Rightarrow> (case ws_messages w ds p1 of (p2, fx2) \<Rightarrow> (p2, fx1 @ fx2)))"

section \<open>Connections and the webhook\<close>

text \<open>The start of \<open>wss.on("connection")\<close> and the handler of \<open>ws.on("close")\<close>.\<close>

definition on_connection :: "ws \<Rightarrow> server \<Rightarrow> server" where
  "on_connection w s =
     s\<lparr>wsConnections :=
          (if w \<in> set (wsConnections s) then wsConnections s else wsConnections s @ [w]),
        connectionStates := (connectionStates s)(w \<mapsto> \<lparr>ragMode = False\<rparr>)\<rparr>"

definition on_close :: "ws \<Rightarrow> server \<Rightarrow> server" where
  "on_close w s =
     s\<lparr>wsConnections := removeAll w (wsConnections s),
        connectionStates := (connectionStates s)(w := None)\<rparr>"

text \<open>
  \<open>toLowerCase\<close> on the letters A to Z; the handler uses the result only to
  look for the three commands, which are made of such letters and a space.
\<close>

definition to_lower_char :: "char \<Rightarrow> char" where
  "to_lower_char c =
     (if c \<in> set ''ABCDEFGHIJKLMNOPQRSTUVWXYZ'' then char_of (of_char c + (32::nat)) else c)"

definition toLowerCase :: "string \<Rightarrow> string" where
  "toLowerCase t = map to_lower_char t"

text \<open>\<open>t.includes(p)\<close>: \<open>p\<close> occurs in \<open>t\<close> as a contiguous piece.\<close>

fun js_includes :: "string \<Rightarrow> string \<Rightarrow> bool" where
  "js_includes [] p = (p = [])"
| "js_includes (c # t) p = (prefix p (c # t) \<or> js_includes t p)"

text \<open>
  The body of a webhook request: \<open>event\<close>, the chat text at
  \<open>data.data.data.text\<close> (absent when the path does not lead to a string) and
  whether \<open>data.data.participant\<close> is an object.
\<close>

record webhook_body =
  wb_event :: string
  wb_text :: "string option"
  wb_has_participant :: bool

datatype http_status = Status200 | Status500

text \<open>The two loops over \<open>wsConnections\<close>, one round each.\<close>

definition rag_on_each :: "ws \<Rightarrow> server \<Rightarrow> server" where
  "rag_on_each w s =
     (case connectionStates s w of
        None \<Rightarrow> s
      | Some st \<Rightarrow> s\<lparr>connectionStates := (connectionStates s)(w \<mapsto> st\<lparr>ragMode := True\<rparr>)\<rparr>)"

definition rag_off_each :: "ws \<Rightarrow> server \<Rightarrow> server" where
  "rag_off_each w s =
     (let s1 = (case connectionStates s w of
                  None \<Rightarrow> s
                | Some st \<Rightarrow>
                    s\<lparr>connectionStates := (connectionStates s)(w \<mapsto> st\<lparr>ragMode := False\<rparr>)\<rparr>)
      in if isRAGActiveThisTurn s1 \<or> isProcessingRAG s1
         then s1\<lparr>isRAGActiveThisTurn := False, isProcessingRAG := False,
                 userTranscriptForRAG := []\<rparr>
         else s1)"

text \<open>
  The handler of \<open>app.post('/webhook')\<close>. Reading a missing text or the name of
  a missing participant throws; the \<open>catch\<close> block answers 500. The search
  that \<open>rag test\<close> awaits cannot throw and feeds a log line only.
\<close>

definition webhook :: "webhook_body \<Rightarrow> server \<Rightarrow> server \<times> http_status" where
  "webhook b s =
     (if wb_event b = ''participant_events.chat_message'' then
        (case wb_text b of
           None \<Rightarrow> (s, Status500)
         | Some t \<Rightarrow>
             if \<not> wb_has_participant b then (s, Status500)
             else if js_includes (toLowerCase t) ''rag on''
               then (fold rag_on_each (wsConnections s) s, Status200)
             else if js_includes (toLowerCase t) ''rag off''
               then (fold rag_off_each (wsConnections s) s, Status200)
             else (s, Status200))
      else (s, Status200))"

section \<open>The retrieval orchestrator\<close>

datatype js_error =
    Error string
  | TypeError string
  | SyntaxError string

text \<open>
  A field of a search result: missing, a string, or a value of another kind,
  of which the code observes only whether it is truthy.
\<close>

datatype js_field =
    Missing
  | Text string
  | Other bool

text \<open>
  A search result: \<open>doc.content\<close>, \<open>doc.text\<close> and \<open>JSON.stringify(doc)\<close>.
\<close>

record document =
  doc_content :: js_field
  doc_text :: js_field
  doc_json :: string

text \<open>What the search client does with a query: it throws, or yields documents.\<close>

datatype search_outcome =
    SearchThrows string
  | SearchResults "document list"

text \<open>\<open>performRAGSearch\<close>: its \<open>catch\<close> block returns the empty list.\<close>

definition performRAGSearch :: "search_outcome \<Rightarrow> document list" where
  "performRAGSearch r = (case r of SearchThrows m \<Rightarrow> [] | SearchResults docs \<Rightarrow> docs)"

text \<open>
  What the completion request comes back with. \<open>fetch\<close> rejects, or gives a
  response with \<open>ok\<close>, \<open>status\<close> and a body; \<open>json()\<close> of the body throws or
  gives data whose \<open>choices\<close> are absent or a list; a choice has no \<open>message\<close>
  or a message with a content.
\<close>

datatype choice =
    NoMessage
  | Message string

datatype json_outcome =
    JsonThrows string
  | JsonData "choice list option"

datatype fetch_outcome =
    FetchThrows string
  | FetchResponse bool nat json_outcome

text \<open>The body of the completion request.\<close>

record completion_request =
  req_model :: string
  req_system :: string
  req_user :: string
  req_max_tokens :: nat
  req_temperature :: real

text \<open>
  What the orchestrator does, in order: the search and completion calls, the
  assignment \<open>isProcessingRAG = false\<close>, a command the provider client has
  accepted, and a timer that is set, with the command its callback sends.
\<close>

datatype rag_action =
    Search string nat
  | Fetch completion_request
  | ClearProcessing
  | Send string payload
  | SetTimeout nat string payload

text \<open>
  The surroundings of one run: the outcomes of the two calls, and whether the
  provider client is connected, without which \<open>client.realtime.send\<close> throws,
  at the two moments the run sends: when it resumes after its last \<open>await\<close>,
  and when its timer expires 200 ms later.
\<close>

record rag_env =
  search_result :: search_outcome
  completion_result :: fetch_outcome
  realtime_connected :: bool
  realtime_connected_at_timer :: bool

text \<open>A number in a template literal.\<close>

fun show_nat :: "nat \<Rightarrow> string" where
  "show_nat n =
     (if n < 10 then [char_of (48 + n)]
      else show_nat (n div 10) @ [char_of (48 + n mod 10)])"

declare show_nat.simps [simp del]

definition newline :: string where
  "newline = [CHR 0x0A]"

text \<open>\<open>parts.join(sep)\<close>\<close>

fun join :: "string \<Rightarrow> string list \<Rightarrow> string" where
  "join sep [] = []"
| "join sep [x] = x"
| "join sep (x # y # ys) = x @ sep @ join sep (y # ys)"

text \<open>Whether \<open>||\<close> keeps a value: an empty string and a missing field are falsy.\<close>

fun truthy :: "js_field \<Rightarrow> bool" where
  "truthy Missing = False"
| "truthy (Text t) = (t \<noteq> [])"
| "truthy (Other b) = b"

text \<open>\<open>doc.content || doc.text || JSON.stringify(doc)\<close>\<close>

definition document_value :: "document \<Rightarrow> js_field" where
  "document_value d =
     (if truthy (doc_content d) then doc_content d
      else if truthy (doc_text d) then doc_text d
      else Text (doc_json d))"

text \<open>
  The value as the receiver of \<open>content.substring(0, 300)\<close>: a value that is
  not a string has no method \<open>substring\<close>, and the call throws.
\<close>

definition document_content :: "document \<Rightarrow> js_error + string" where
  "document_content d =
     (case document_value d of
        Text t \<Rightarrow> Inr t
      | _ \<Rightarrow> Inl (TypeError ''content.substring is not a function''))"

text \<open>The callback of \<open>searchResults.map\<close>, for the document at index \<open>i\<close>.\<close>

definition document_entry :: "nat \<Rightarrow> document \<Rightarrow> js_error + string" where
  "document_entry i d =
     (case document_content d of
        Inl err \<Rightarrow> Inl err
      | Inr content \<Rightarrow>
          Inr (''Document '' @ show_nat (i + 1) @ '':'' @ newline @ take 300 content))"

text \<open>
  \<open>map\<close> calls its callback on the elements in order; the first call that
  throws ends it.
\<close>

fun first_throw :: "(js_error + 'a) list \<Rightarrow> js_error + 'a list" where
  "first_throw [] = Inr []"
| "first_throw (Inl err # rs) = Inl err"
| "first_throw (Inr x # rs) =
     (case first_throw rs of Inl err \<Rightarrow> Inl err | Inr xs \<Rightarrow> Inr (x # xs))"

definition contextText :: "document list \<Rightarrow> js_error + string" where
  "contextText docs =
     (case first_throw (map (\<lambda>(i, d). document_entry i d) (enumerate 0 docs)) of
        Inl err \<Rightarrow> Inl err
      | Inr entries \<Rightarrow> Inr (join (newline @ newline) entries))"

text \<open>The request body, for the context that was built and the query.\<close>

definition completion_request_for :: "string \<Rightarrow> string \<Rightarrow> completion_request" where
  "completion_request_for ctx userQuery =
     \<lparr>req_model = ''gpt-3.5-turbo'',
      req_system =
        ''You are a helpful assistant. Use this context to answer the question:'' @
        newline @ newline @ ctx,
      req_user = userQuery,
      req_max_tokens = 200,
      req_temperature = 7 / 10\<rparr>"

definition no_results_text :: string where
  "no_results_text =
     ''I couldn't find specific information for that in my documents. How else can I assist you?''"

definition error_text :: string where
  "error_text =
     ''I encountered an issue while trying to access my knowledge base. Please try again or ask something else.''"

text \<open>\<open>client.realtime.send(type, data)\<close>\<close>

definition realtime_send :: "bool \<Rightarrow> string \<Rightarrow> payload \<Rightarrow> rag_action list \<times> (js_error + unit)" where
  "realtime_send up ty p =
     (if up then ([Send ty p], Inr ()) else ([], Inl (Error ''RealtimeAPI is not connected'')))"

text \<open>
  The two statements that hand a text to the provider: the assistant item is
  sent, then a timer of 200 ms is set whose callback sends \<open>response.create\<close>.
  The source writes them out in each of its three places. When the send
  throws, the timer is not set.
\<close>

definition send_spoken :: "bool \<Rightarrow> string \<Rightarrow> rag_action list \<times> (js_error + unit)" where
  "send_spoken up responseText =
     (case realtime_send up ''conversation.item.create'' (AssistantItem responseText) of
        (tr, Inl err) \<Rightarrow> (tr, Inl err)
      | (tr, Inr u) \<Rightarrow> (tr @ [SetTimeout 200 ''response.create'' SpeakResponse], Inr ()))"

text \<open>
  From \<open>fetch\<close> to \<open>aiData.choices[0].message.content\<close>: every way this part
  throws, and the text it reads otherwise. The text is not tested for being
  empty.
\<close>

definition completion_text :: "fetch_outcome \<Rightarrow> js_error + string" where
  "completion_text r =
     (case r of
        FetchThrows m \<Rightarrow> Inl (TypeError m)
      | FetchResponse ok status body \<Rightarrow>
          if \<not> ok then Inl (Error (''AI API failed: '' @ show_nat status))
          else
            (case body of
               JsonThrows m \<Rightarrow> Inl (SyntaxError m)
             | JsonData choices \<Rightarrow>
                 (case choices of
                    None \<Rightarrow> Inl (Error ''No AI response received'')
                  | Some [] \<Rightarrow> Inl (Error ''No AI response received'')
                  | Some (NoMessage # cs) \<Rightarrow>
                      Inl (TypeError ''Cannot read properties of undefined (reading 'content')'')
                  | Some (Message content # cs) \<Rightarrow> Inr content)))"

text \<open>The \<open>try\<close> block of \<open>performRAGProcess\<close>.\<close>

definition rag_try :: "rag_env \<Rightarrow> string \<Rightarrow> rag_action list \<times> (js_error + unit)" where
  "rag_try env userQuery =
     (let searchResults = performRAGSearch (search_result env) in
      if length searchResults = 0 then
        (case send_spoken (realtime_connected env) no_results_text of
           (tr, r) \<Rightarrow> ([Search userQuery 2, ClearProcessing] @ tr, r))
      else
        (case contextText searchResults of
           Inl err \<Rightarrow> ([Search userQuery 2], Inl err)
         | Inr ctx \<Rightarrow>
             (case completion_text (completion_result env) of
                Inl err \<Rightarrow>
                  ([Search userQuery 2, Fetch (completion_request_for ctx userQuery)],
                   Inl err)
              | Inr responseText \<Rightarrow>
                  (case send_spoken (realtime_connected env) responseText of
                     (tr, r) \<Rightarrow>
                       ([Search userQuery 2, Fetch (completion_request_for ctx userQuery),
                         ClearProcessing] @ tr, r)))))"

text \<open>
  Its \<open>catch\<close> block: the flag is cleared, and the error text is sent inside a
  \<open>try\<close> of its own whose \<open>catch\<close> only logs.
\<close>

definition rag_catch :: "rag_env \<Rightarrow> js_error \<Rightarrow> rag_action list \<times> (js_error + unit)" where
  "rag_catch env err =
     (case send_spoken (realtime_connected env) error_text of
        (tr, Inl ttsError) \<Rightarrow> (ClearProcessing # tr, Inr ())
      | (tr, Inr u) \<Rightarrow> (ClearProcessing # tr, Inr ()))"

text \<open>How the promise of an \<open>async\<close> function settles.\<close>

datatype settled =
    Resolved
  | Rejected js_error

definition performRAGProcess :: "rag_env \<Rightarrow> string \<Rightarrow> rag_action list \<times> settled" where
  "performRAGProcess env userQuery =
     (case rag_try env userQuery of
        (tr, Inr u) \<Rightarrow> (tr, Resolved)
      | (tr, Inl err) \<Rightarrow>
          (case rag_catch env err of
             (tr', Inr u) \<Rightarrow> (tr @ tr', Resolved)
           | (tr', Inl err') \<Rightarrow> (tr @ tr', Rejected err')))"

text \<open>
  The timers of a run expire after it has settled. A callback consists of the
  one call \<open>client.realtime.send\<close>, outside every \<open>try\<close> block: the result is
  the commands the callbacks have sent and the errors they have thrown, which
  nothing catches.
\<close>

fun timers_expire :: "bool \<Rightarrow> rag_action list \<Rightarrow> rag_action list \<times> js_error list" where
  "timers_expire up [] = ([], [])"
| "timers_expire up (SetTimeout ms ty p # tr) =
     (case realtime_send up ty p of
        (sent, r) \<Rightarrow>
          (case timers_expire up tr of
             (sent', errs) \<Rightarrow>
               (sent @ sent', (case r of Inl err \<Rightarrow> [err] | Inr u \<Rightarrow> []) @ errs)))"
| "timers_expire up (a # tr) = timers_expire up tr"

definition rag_timers :: "rag_env \<Rightarrow> string \<Rightarrow> rag_action list \<times> js_error list" where
  "rag_timers env userQuery =
     timers_expire (realtime_connected_at_timer env) (fst (performRAGProcess env userQuery))"

text \<open>
  What a run does to the variables of the server. Its assignments all come
  after its last \<open>await\<close>, so they apply to the state the server is in then.
  The \<open>.catch\<close> at the place of the call clears the flag if the promise rejects.
\<close>

fun apply_action :: "rag_action \<Rightarrow> server \<Rightarrow> server" where
  "apply_action ClearProcessing s = s\<lparr>isProcessingRAG := False\<rparr>"
| "apply_action a s = s"

definition rag_finish :: "rag_env \<Rightarrow> string \<Rightarrow> server \<Rightarrow> server" where
  "rag_finish env userQuery s =
     (case performRAGProcess env userQuery of
        (tr, Resolved) \<Rightarrow> fold apply_action tr s
      | (tr, Rejected err) \<Rightarrow> (fold apply_action tr s)\<lparr>isProcessingRAG := False\<rparr>)"

text \<open>The texts of the assistant items that a run has sent, in order.\<close>

fun sent_items :: "rag_action list \<Rightarrow> string list" where
  "sent_items [] = []"
| "sent_items (Send ty (AssistantItem t) # tr) = t # sent_items tr"
| "sent_items (a # tr) = sent_items tr"

section \<open>Examples used below\<close>

definition ev :: "string \<Rightarrow> event" where
  "ev t = \<lparr>ev_type = t, ev_item_role = None, ev_text = None, ev_rest = []\<rparr>"

definition ev_delta :: "string \<Rightarrow> event" where
  "ev_delta t =
     \<lparr>ev_type = ''response.audio_transcript.delta'', ev_item_role = None,
      ev_text = Some t, ev_rest = []\<rparr>"

definition ev_assistant_item :: event where
  "ev_assistant_item =
     \<lparr>ev_type = ''conversation.item.created'', ev_item_role = Some ''assistant'',
      ev_text = None, ev_rest = []\<rparr>"

text \<open>One pair, socket 0, with the given \<open>ragMode\<close> and the given two flags.\<close>

definition one_pair :: "bool \<Rightarrow> bool \<Rightarrow> bool \<Rightarrow> server" where
  "one_pair rag armed processing =
     \<lparr>connectionStates = [0 \<mapsto> \<lparr>ragMode = rag\<rparr>], wsConnections = [0],
      isProcessingRAG = processing, userTranscriptForRAG = [],
      isRAGActiveThisTurn = armed\<rparr>"

definition doc_abc :: document where
  "doc_abc = \<lparr>doc_content = Text ''abc'', doc_text = Missing, doc_json = ''{}''\<rparr>"

definition doc_text_only :: document where
  "doc_text_only = \<lparr>doc_content = Text [], doc_text = Text ''xyz'', doc_json = ''{}''\<rparr>"

definition doc_number :: document where
  "doc_number = \<lparr>doc_content = Other True, doc_text = Text ''xyz'', doc_json = ''{}''\<rparr>"

text \<open>The surroundings of a run, from their four parts.\<close>

definition run_env :: "search_outcome \<Rightarrow> fetch_outcome \<Rightarrow> bool \<Rightarrow> bool \<Rightarrow> rag_env" where
  "run_env found answered up up_later =
     \<lparr>search_result = found, completion_result = answered, realtime_connected = up,
      realtime_connected_at_timer = up_later\<rparr>"

definition chat_message :: "string \<Rightarrow> webhook_body" where
  "chat_message t =
     \<lparr>wb_event = ''participant_events.chat_message'', wb_text = Some t,
      wb_has_participant = True\<rparr>"

text \<open>
  Two pairs: socket 0 connects and \<open>rag on\<close> is received, then socket 1
  connects. In \<open>other_pair_processing\<close> the user of pair 0 has then spoken a
  turn, which has started a run.
\<close>

definition two_pairs :: server where
  "two_pairs =
     on_connection 1 (fst (webhook (chat_message ''RAG on'') (on_connection 0 initial_server)))"

definition other_pair_processing :: server where
  "other_pair_processing =
     fst (server_events trim_blanks 0
            [ev ''input_audio_buffer.speech_started'', ev_delta ''hi'',
             ev ''response.audio_transcript.done'']
            two_pairs)"

text \<open>
  One pair whose client leaves in the middle of a turn: socket 0 connects,
  \<open>rag on\<close> is received, the user starts to speak, the socket closes.
\<close>

definition closed_mid_turn :: server where
  "closed_mid_turn =
     on_close 0
       (fst (server_events trim_blanks 0 [ev ''input_audio_buffer.speech_started'']
          (fst (webhook (chat_message ''RAG on'') (on_connection 0 initial_server)))))"

section \<open>Properties of the provider event handler\<close>

lemma done_is_response_construction:
  "ev_type e = ''response.audio_transcript.done'' \<Longrightarrow> is_response_construction e"
  by (simp add: is_response_construction_def)

lemma delta_is_response_construction:
  "ev_type e = ''response.audio_transcript.delta'' \<Longrightarrow> is_response_construction e"
  by (simp add: is_response_construction_def)

lemma speech_started_not_response_construction:
  "ev_type e = ''input_audio_buffer.speech_started'' \<Longrightarrow> \<not> is_response_construction e"
  by (simp add: is_response_construction_def)

lemma handler_blocked:
  "isProcessingRAG s \<Longrightarrow> is_response_construction e \<Longrightarrow>
   server_event_handler trim w e s = (s, [])"
  by (simp add: server_event_handler_def)

lemma speech_started_step_processing [simp]:
  "isProcessingRAG (speech_started_step w e s) = isProcessingRAG s"
  by (simp add: speech_started_step_def Let_def)

lemma transcript_delta_step_processing [simp]:
  "isProcessingRAG (transcript_delta_step e s) = isProcessingRAG s"
  by (simp add: transcript_delta_step_def split: option.split)

lemma transcript_done_step_other:
  "ev_type e \<noteq> ''response.audio_transcript.done'' \<Longrightarrow>
   transcript_done_step trim w e s = (s, [], True)"
  by (simp add: transcript_done_step_def)

lemma handler_other:
  assumes "isProcessingRAG s" and "\<not> is_response_construction e"
  shows "snd (server_event_handler trim w e s) = [WsSend w e]"
    and "isProcessingRAG (fst (server_event_handler trim w e s))"
proof -
  from assms(2) have ne: "ev_type e \<noteq> ''response.audio_transcript.done''"
    using done_is_response_construction by blast
  show "snd (server_event_handler trim w e s) = [WsSend w e]"
    using assms(2)
    by (simp add: server_event_handler_def Let_def transcript_done_step_other [OF ne])
  show "isProcessingRAG (fst (server_event_handler trim w e s))"
    using assms
    by (simp add: server_event_handler_def Let_def transcript_done_step_other [OF ne])
qed

lemma server_events_Cons_fst:
  "fst (server_events trim w (e # es) s) =
     fst (server_events trim w es (fst (server_event_handler trim w e s)))"
  by (simp add: case_prod_beta)

lemma server_events_Cons_snd:
  "snd (server_events trim w (e # es) s) =
     snd (server_event_handler trim w e s) @
     snd (server_events trim w es (fst (server_event_handler trim w e s)))"
  by (simp add: case_prod_beta)

text \<open>
  Claim C1. While \<open>isProcessingRAG\<close> is true, of any provider events that arrive,
  however many, the ones whose type starts with \<open>response.\<close> or that are a
  \<open>conversation.item.created\<close> of the assistant are not relayed; all the others
  are relayed to the client, unchanged and in order; and the flag stays true
  throughout.
\<close>

theorem processing_suppresses_response_construction:
  assumes "isProcessingRAG s"
  shows "snd (server_events trim w es s) =
           map (WsSend w) (filter (\<lambda>e. \<not> is_response_construction e) es) \<and>
         isProcessingRAG (fst (server_events trim w es s))"
  using assms
proof (induction es arbitrary: s)
  case Nil
  then show ?case by simp
next
  case (Cons e es)
  show ?case
  proof (cases "is_response_construction e")
    case True
    with Cons show ?thesis
      by (simp add: server_events_Cons_fst server_events_Cons_snd handler_blocked
          del: server_events.simps)
  next
    case False
    from Cons.IH [OF handler_other(2) [OF Cons.prems False, of trim w]]
      handler_other(1) [OF Cons.prems False, of trim w] False
    show ?thesis
      by (simp add: server_events_Cons_fst server_events_Cons_snd del: server_events.simps)
  qed
qed

theorem processing_suppresses_response_construction_witness:
  "isProcessingRAG (one_pair True False True) \<and>
   snd (server_events trim_blanks 0
          [ev ''response.audio.delta'', ev_assistant_item,
           ev ''input_audio_buffer.speech_stopped'', ev ''response.done'',
           ev ''conversation.item.created'']
          (one_pair True False True)) =
     [WsSend 0 (ev ''input_audio_buffer.speech_stopped''),
      WsSend 0 (ev ''conversation.item.created'')]"
  using processing_suppresses_response_construction
    [of "one_pair True False True" trim_blanks 0
        "[ev ''response.audio.delta'', ev_assistant_item,
          ev ''input_audio_buffer.speech_stopped'', ev ''response.done'',
          ev ''conversation.item.created'']"]
  by (simp add: one_pair_def is_response_construction_def ev_def ev_assistant_item_def)

section \<open>Properties of the client message path\<close>

text \<open>
  Claim C2. A client event that parses is dropped, and nothing is sent to the
  provider, when its type is \<open>response.create\<close> and \<open>isRAGActiveThisTurn\<close> or
  \<open>isProcessingRAG\<close> is true; in every other state and for every other type
  the event is sent to the provider under its own type, unchanged.
\<close>

theorem client_response_create_dropped:
  "((isRAGActiveThisTurn s \<or> isProcessingRAG s) \<and> ev_type e = ''response.create'' \<longrightarrow>
      messageHandler w (Encoded e) s = []) \<and>
   (\<not> ((isRAGActiveThisTurn s \<or> isProcessingRAG s) \<and> ev_type e = ''response.create'') \<longrightarrow>
      messageHandler w (Encoded e) s = [RealtimeSend w (ev_type e) (Forward e)])"
  by (simp add: messageHandler_def)

theorem client_response_create_dropped_witness:
  "messageHandler 0 (Encoded (ev ''response.create'')) (one_pair True True False) = [] \<and>
   messageHandler 0 (Encoded (ev ''response.create'')) (one_pair True False True) = [] \<and>
   messageHandler 0 (Encoded (ev ''response.create'')) (one_pair True False False) =
     [RealtimeSend 0 ''response.create'' (Forward (ev ''response.create''))] \<and>
   messageHandler 0 (Encoded (ev ''input_audio_buffer.append'')) (one_pair True True True) =
     [RealtimeSend 0 ''input_audio_buffer.append'' (Forward (ev ''input_audio_buffer.append''))]"
  using client_response_create_dropped [of "one_pair True True False" "ev ''response.create''" 0]
    client_response_create_dropped [of "one_pair True False True" "ev ''response.create''" 0]
    client_response_create_dropped [of "one_pair True False False" "ev ''response.create''" 0]
    client_response_create_dropped [of "one_pair True True True" "ev ''input_audio_buffer.append''" 0]
  by (simp add: one_pair_def ev_def)

section \<open>Capturing a turn\<close>

lemma handler_speech_started:
  assumes "ev_type e = ''input_audio_buffer.speech_started''" "\<not> isProcessingRAG s"
  shows "server_event_handler trim w e s =
           (s\<lparr>userTranscriptForRAG := [], isRAGActiveThisTurn := ragMode_on s w\<rparr>, [WsSend w e])"
  using assms
  by (simp add: server_event_handler_def speech_started_step_def transcript_delta_step_def
      transcript_done_step_def ragMode_on_def Let_def)

lemma handler_delta_armed:
  assumes "ev_type e = ''response.audio_transcript.delta''" "ev_text e = Some t"
    "isRAGActiveThisTurn s" "\<not> isProcessingRAG s"
  shows "server_event_handler trim w e s =
           (s\<lparr>userTranscriptForRAG := userTranscriptForRAG s @ t\<rparr>, [WsSend w e])"
  using assms
  by (simp add: server_event_handler_def speech_started_step_def transcript_delta_step_def
      transcript_done_step_def Let_def)

lemma handler_done_armed:
  assumes "ev_type e = ''response.audio_transcript.done''"
    "isRAGActiveThisTurn s" "\<not> isProcessingRAG s"
  shows "server_event_handler trim w e s =
           (if trim (userTranscriptForRAG s) \<noteq> []
            then (s\<lparr>isRAGActiveThisTurn := False, isProcessingRAG := True\<rparr>,
                  [PerformRAGProcess w (trim (userTranscriptForRAG s))])
            else (s\<lparr>isRAGActiveThisTurn := False, isProcessingRAG := False\<rparr>, [WsSend w e]))"
  using assms
  by (simp add: server_event_handler_def speech_started_step_def transcript_delta_step_def
      transcript_done_step_def Let_def)

lemma deltas_armed:
  assumes "isRAGActiveThisTurn s" "\<not> isProcessingRAG s"
    "\<forall>e\<in>set deltas. ev_type e = ''response.audio_transcript.delta''"
    "map ev_text deltas = map Some ds"
  shows "server_events trim w deltas s =
           (s\<lparr>userTranscriptForRAG := userTranscriptForRAG s @ concat ds\<rparr>, map (WsSend w) deltas)"
  using assms
proof (induction deltas arbitrary: s ds)
  case Nil
  then show ?case by simp
next
  case (Cons e es)
  from Cons.prems(4) obtain t ts where ds: "ds = t # ts" and t: "ev_text e = Some t"
    and ts: "map ev_text es = map Some ts"
    by (cases ds) auto
  from Cons.prems(3) have ty: "ev_type e = ''response.audio_transcript.delta''" by simp
  let ?s1 = "s\<lparr>userTranscriptForRAG := userTranscriptForRAG s @ t\<rparr>"
  have h: "server_event_handler trim w e s = (?s1, [WsSend w e])"
    by (rule handler_delta_armed [OF ty t Cons.prems(1,2)])
  have "server_events trim w es ?s1 =
          (?s1\<lparr>userTranscriptForRAG := userTranscriptForRAG ?s1 @ concat ts\<rparr>, map (WsSend w) es)"
    using Cons.prems by (intro Cons.IH [OF _ _ _ ts]) simp_all
  with h ds show ?case by simp
qed


lemma server_events_append:
  "server_events trim w (es @ es') s =
     (case server_events trim w es s of
        (s1, fx1) \<Rightarrow> (case server_events trim w es' s1 of (s2, fx2) \<Rightarrow> (s2, fx1 @ fx2)))"
  by (induction es arbitrary: s) (simp_all split: prod.split)

lemma trim_blanks_hi: "trim_blanks ''hi there'' = ''hi there''"
  by (simp add: trim_blanks_def is_space_def)

lemma trim_blanks_blank: "trim_blanks ''  '' = []"
  by (simp add: trim_blanks_def is_space_def)

text \<open>
  Claim C3, as amended. With \<open>ragMode\<close> true for the pair and \<open>isProcessingRAG\<close>
  false when the speech starts: after the \<open>speech_started\<close> event and delta
  events with the texts \<open>ds\<close>, the buffer is the concatenation of \<open>ds\<close> in order
  of arrival, and all these events have been relayed. On the \<open>done\<close> event, if
  the trimmed buffer is not empty the flag \<open>isProcessingRAG\<close> is set, the event
  is not relayed and \<open>performRAGProcess\<close> is started with the trimmed buffer;
  otherwise both flags are false, nothing is started and the event is relayed.
\<close>

theorem turn_capture:
  assumes rag: "ragMode_on s w"
    and idle: "\<not> isProcessingRAG s"
    and e0: "ev_type e0 = ''input_audio_buffer.speech_started''"
    and deltas: "\<forall>e\<in>set deltas. ev_type e = ''response.audio_transcript.delta''"
    and texts: "map ev_text deltas = map Some ds"
    and e1: "ev_type e1 = ''response.audio_transcript.done''"
  shows "server_events trim w (e0 # deltas) s =
           (s\<lparr>userTranscriptForRAG := concat ds, isRAGActiveThisTurn := True\<rparr>,
            map (WsSend w) (e0 # deltas)) \<and>
         server_events trim w (e0 # deltas @ [e1]) s =
           (if trim (concat ds) \<noteq> []
            then (s\<lparr>userTranscriptForRAG := concat ds, isRAGActiveThisTurn := False,
                     isProcessingRAG := True\<rparr>,
                  map (WsSend w) (e0 # deltas) @ [PerformRAGProcess w (trim (concat ds))])
            else (s\<lparr>userTranscriptForRAG := concat ds, isRAGActiveThisTurn := False,
                     isProcessingRAG := False\<rparr>,
                  map (WsSend w) (e0 # deltas) @ [WsSend w e1]))"
proof -
  let ?s0 = "s\<lparr>userTranscriptForRAG := [], isRAGActiveThisTurn := True\<rparr>"
  let ?s1 = "s\<lparr>userTranscriptForRAG := concat ds, isRAGActiveThisTurn := True\<rparr>"
  have h0: "server_event_handler trim w e0 s = (?s0, [WsSend w e0])"
    using handler_speech_started [OF e0 idle, of trim w] rag by simp
  have "server_events trim w deltas ?s0 =
          (?s0\<lparr>userTranscriptForRAG := userTranscriptForRAG ?s0 @ concat ds\<rparr>,
           map (WsSend w) deltas)"
    using idle by (intro deltas_armed [OF _ _ deltas texts]) simp_all
  then have hd: "server_events trim w deltas ?s0 = (?s1, map (WsSend w) deltas)"
    by simp
  have first: "server_events trim w (e0 # deltas) s = (?s1, map (WsSend w) (e0 # deltas))"
    using h0 hd by simp
  have h1: "server_event_handler trim w e1 ?s1 =
              (if trim (concat ds) \<noteq> []
               then (?s1\<lparr>isRAGActiveThisTurn := False, isProcessingRAG := True\<rparr>,
                     [PerformRAGProcess w (trim (concat ds))])
               else (?s1\<lparr>isRAGActiveThisTurn := False, isProcessingRAG := False\<rparr>,
                     [WsSend w e1]))"
    using handler_done_armed [OF e1, of ?s1 trim w] idle by simp
  have "server_events trim w ((e0 # deltas) @ [e1]) s =
          (case server_event_handler trim w e1 ?s1 of
             (s2, fx2) \<Rightarrow> (s2, map (WsSend w) (e0 # deltas) @ fx2))"
    unfolding server_events_append first by (simp split: prod.split)
  with h1 have second: "server_events trim w (e0 # deltas @ [e1]) s =
           (if trim (concat ds) \<noteq> []
            then (s\<lparr>userTranscriptForRAG := concat ds, isRAGActiveThisTurn := False,
                     isProcessingRAG := True\<rparr>,
                  map (WsSend w) (e0 # deltas) @ [PerformRAGProcess w (trim (concat ds))])
            else (s\<lparr>userTranscriptForRAG := concat ds, isRAGActiveThisTurn := False,
                     isProcessingRAG := False\<rparr>,
                  map (WsSend w) (e0 # deltas) @ [WsSend w e1]))"
    by simp
  from first second show ?thesis by blast
qed

theorem turn_capture_witness:
  "server_events trim_blanks 0
     [ev ''input_audio_buffer.speech_started'', ev_delta ''hi '', ev_delta ''there'',
      ev ''response.audio_transcript.done'']
     (one_pair True False False) =
   ((one_pair True False False)\<lparr>userTranscriptForRAG := ''hi there'',
       isRAGActiveThisTurn := False, isProcessingRAG := True\<rparr>,
    [WsSend 0 (ev ''input_audio_buffer.speech_started''), WsSend 0 (ev_delta ''hi ''),
     WsSend 0 (ev_delta ''there''), PerformRAGProcess 0 ''hi there'']) \<and>
   server_events trim_blanks 0
     [ev ''input_audio_buffer.speech_started'', ev_delta ''  '',
      ev ''response.audio_transcript.done'']
     (one_pair True False False) =
   ((one_pair True False False)\<lparr>userTranscriptForRAG := ''  '',
       isRAGActiveThisTurn := False, isProcessingRAG := False\<rparr>,
    [WsSend 0 (ev ''input_audio_buffer.speech_started''), WsSend 0 (ev_delta ''  ''),
     WsSend 0 (ev ''response.audio_transcript.done'')])"
  using turn_capture [of "one_pair True False False" 0 "ev ''input_audio_buffer.speech_started''"
      "[ev_delta ''hi '', ev_delta ''there'']" "[''hi '', ''there'']"
      "ev ''response.audio_transcript.done''" trim_blanks]
    turn_capture [of "one_pair True False False" 0 "ev ''input_audio_buffer.speech_started''"
      "[ev_delta ''  '']" "[''  '']"
      "ev ''response.audio_transcript.done''" trim_blanks]
  by (simp add: one_pair_def ragMode_on_def ev_def ev_delta_def trim_blanks_hi trim_blanks_blank
      del: server_events.simps)

text \<open>
  Claim C3 as stated fails when \<open>isProcessingRAG\<close> is already true as the speech
  starts: the turn is not armed, the deltas are blocked, the buffer stays
  empty and no run is started, although the texts are not blank. This is the
  second of two turns when the run of the first is still in flight.
\<close>

theorem turn_capture_counterexample:
  "ragMode_on (one_pair True False True) 0 \<and>
   trim_blanks (concat [''hi '', ''there'']) \<noteq> [] \<and>
   userTranscriptForRAG
     (fst (server_events trim_blanks 0
        [ev ''input_audio_buffer.speech_started'', ev_delta ''hi '', ev_delta ''there'']
        (one_pair True False True))) = [] \<and>
   server_events trim_blanks 0
     [ev ''input_audio_buffer.speech_started'', ev_delta ''hi '', ev_delta ''there'',
      ev ''response.audio_transcript.done'']
     (one_pair True False True) =
   (one_pair True False True, [WsSend 0 (ev ''input_audio_buffer.speech_started'')]) \<and>
   snd (server_events trim_blanks 0
     [ev ''input_audio_buffer.speech_started'', ev_delta ''first'',
      ev ''response.audio_transcript.done'',
      ev ''input_audio_buffer.speech_started'', ev_delta ''hi '', ev_delta ''there'',
      ev ''response.audio_transcript.done'']
     (one_pair True False False)) =
   [WsSend 0 (ev ''input_audio_buffer.speech_started''), WsSend 0 (ev_delta ''first''),
    PerformRAGProcess 0 ''first'', WsSend 0 (ev ''input_audio_buffer.speech_started'')]"
proof -
  have "snd (server_events trim_blanks 0
     [ev ''input_audio_buffer.speech_started'', ev_delta ''first'',
      ev ''response.audio_transcript.done'',
      ev ''input_audio_buffer.speech_started'', ev_delta ''hi '', ev_delta ''there'',
      ev ''response.audio_transcript.done'']
     (one_pair True False False)) =
   [WsSend 0 (ev ''input_audio_buffer.speech_started''), WsSend 0 (ev_delta ''first''),
    PerformRAGProcess 0 ''first'', WsSend 0 (ev ''input_audio_buffer.speech_started'')]"
    by code_simp
  then show ?thesis
    by (simp add: one_pair_def ragMode_on_def ev_def ev_delta_def trim_blanks_hi
      server_event_handler_def is_response_construction_def speech_started_step_def
      transcript_delta_step_def transcript_done_step_def Let_def)
qed

section \<open>Properties of the retrieval orchestrator\<close>

lemma send_spoken_connected:
  "send_spoken True t =
     ([Send ''conversation.item.create'' (AssistantItem t),
       SetTimeout 200 ''response.create'' SpeakResponse], Inr ())"
  by (simp add: send_spoken_def realtime_send_def)

lemma send_spoken_disconnected:
  "send_spoken False t = ([], Inl (Error ''RealtimeAPI is not connected''))"
  by (simp add: send_spoken_def realtime_send_def)

lemma rag_catch_connected:
  "realtime_connected env \<Longrightarrow>
   rag_catch env err =
     ([ClearProcessing, Send ''conversation.item.create'' (AssistantItem error_text),
       SetTimeout 200 ''response.create'' SpeakResponse], Inr ())"
  by (simp add: rag_catch_def send_spoken_connected)

lemma rag_catch_disconnected:
  "\<not> realtime_connected env \<Longrightarrow> rag_catch env err = ([ClearProcessing], Inr ())"
  by (simp add: rag_catch_def send_spoken_disconnected)

lemma rag_catch_caught: "snd (rag_catch env err) = Inr ()"
  by (cases "realtime_connected env") (simp_all add: rag_catch_connected rag_catch_disconnected)

lemma performRAGProcess_resolved: "snd (performRAGProcess env q) = Resolved"
proof (cases "rag_try env q")
  case (Pair tr r)
  show ?thesis
  proof (cases r)
    case (Inl err)
    with Pair rag_catch_caught [of env err] show ?thesis
      by (cases "rag_catch env err") (simp add: performRAGProcess_def)
  next
    case (Inr u)
    with Pair show ?thesis by (simp add: performRAGProcess_def)
  qed
qed

text \<open>The ways a run goes, with the provider client connected and without.\<close>

lemma performRAGProcess_connected:
  assumes "realtime_connected env"
  shows "fst (performRAGProcess env q) =
     (let docs = performRAGSearch (search_result env);
          spoken = (\<lambda>t. [ClearProcessing, Send ''conversation.item.create'' (AssistantItem t),
                          SetTimeout 200 ''response.create'' SpeakResponse])
      in if docs = [] then Search q 2 # spoken no_results_text
         else
           (case contextText docs of
              Inl err \<Rightarrow> Search q 2 # spoken error_text
            | Inr ctx \<Rightarrow>
                (case completion_text (completion_result env) of
                   Inl err \<Rightarrow>
                     [Search q 2, Fetch (completion_request_for ctx q)] @ spoken error_text
                 | Inr t \<Rightarrow> [Search q 2, Fetch (completion_request_for ctx q)] @ spoken t)))"
  using assms
  by (simp add: performRAGProcess_def rag_try_def rag_catch_connected send_spoken_connected
      Let_def split: sum.split)

lemma performRAGProcess_disconnected:
  assumes "\<not> realtime_connected env"
  shows "fst (performRAGProcess env q) =
     (let docs = performRAGSearch (search_result env)
      in if docs = [] then [Search q 2, ClearProcessing, ClearProcessing]
         else
           (case contextText docs of
              Inl err \<Rightarrow> [Search q 2, ClearProcessing]
            | Inr ctx \<Rightarrow>
                (case completion_text (completion_result env) of
                   Inl err \<Rightarrow>
                     [Search q 2, Fetch (completion_request_for ctx q), ClearProcessing]
                 | Inr t \<Rightarrow>
                     [Search q 2, Fetch (completion_request_for ctx q), ClearProcessing,
                      ClearProcessing])))"
  using assms
  by (simp add: performRAGProcess_def rag_try_def rag_catch_disconnected
      send_spoken_disconnected Let_def split: sum.split)

lemma performRAGProcess_clears: "ClearProcessing \<in> set (fst (performRAGProcess env q))"
  by (cases "realtime_connected env")
    (simp_all add: performRAGProcess_connected performRAGProcess_disconnected Let_def
      split: sum.split)

lemma fold_apply_action:
  "fold apply_action tr s = (if ClearProcessing \<in> set tr then s\<lparr>isProcessingRAG := False\<rparr> else s)"
proof (induction tr arbitrary: s)
  case Nil
  then show ?case by simp
next
  case (Cons a tr)
  then show ?case by (cases a) simp_all
qed

lemma rag_finish_clears: "rag_finish env q s = s\<lparr>isProcessingRAG := False\<rparr>"
proof -
  obtain tr where tr: "performRAGProcess env q = (tr, Resolved)"
    using performRAGProcess_resolved [of env q] by (cases "performRAGProcess env q") simp
  with performRAGProcess_clears [of env q] have "ClearProcessing \<in> set tr" by simp
  with tr show ?thesis by (simp add: rag_finish_def fold_apply_action)
qed

lemma rag_timers_connected:
  assumes "realtime_connected env"
  shows "rag_timers env q =
     (if realtime_connected_at_timer env then ([Send ''response.create'' SpeakResponse], [])
      else ([], [Error ''RealtimeAPI is not connected'']))"
  using assms
  by (simp add: rag_timers_def performRAGProcess_connected realtime_send_def Let_def
      split: sum.split)

lemma rag_timers_disconnected:
  assumes "\<not> realtime_connected env"
  shows "rag_timers env q = ([], [])"
  using assms
  by (simp add: rag_timers_def performRAGProcess_disconnected Let_def split: sum.split)

lemma show_nat_1: "show_nat 1 = ''1''"
  by code_simp

lemma show_nat_2: "show_nat 2 = ''2''"
  by code_simp

lemma show_nat_Suc_0: "show_nat (Suc 0) = ''1''"
  using show_nat_1 by simp

lemma show_nat_Suc_Suc_0: "show_nat (Suc (Suc 0)) = ''2''"
  using show_nat_2 by (simp add: numeral_2_eq_2)

lemma first_throw_none: "first_throw (map Inr xs) = Inr xs"
  by (induction xs) simp_all

lemma document_entries_texts:
  assumes "map document_content docs = map Inr texts"
  shows "map (\<lambda>(i, d). document_entry i d) (enumerate 0 docs) =
         map Inr (map (\<lambda>i. ''Document '' @ show_nat (i + 1) @ '':'' @ newline @
                             take 300 (texts ! i)) [0..<length texts])"
proof -
  from assms have len: "length docs = length texts"
    using map_eq_imp_length_eq by blast
  have nth: "document_content (docs ! i) = Inr (texts ! i)" if "i < length texts" for i
  proof -
    from that len have "map document_content docs ! i = document_content (docs ! i)"
      by simp
    moreover from that have "map Inr texts ! i = (Inr (texts ! i) :: js_error + string)"
      by simp
    ultimately show ?thesis using assms by simp
  qed
  show ?thesis
    by (rule nth_equalityI) (simp_all add: len nth_enumerate_eq document_entry_def nth)
qed

lemma contextText_texts:
  assumes "map document_content docs = map Inr texts"
  shows "contextText docs =
         Inr (join (newline @ newline)
                (map (\<lambda>i. ''Document '' @ show_nat (i + 1) @ '':'' @ newline @
                            take 300 (texts ! i)) [0..<length texts]))"
  unfolding contextText_def document_entries_texts [OF assms] first_throw_none by simp

lemma completion_text_failure:
  "isl (completion_text r) \<longleftrightarrow>
     (\<exists>m. r = FetchThrows m) \<or>
     (\<exists>status body. r = FetchResponse False status body) \<or>
     (\<exists>status m. r = FetchResponse True status (JsonThrows m)) \<or>
     (\<exists>status. r = FetchResponse True status (JsonData None)) \<or>
     (\<exists>status. r = FetchResponse True status (JsonData (Some []))) \<or>
     (\<exists>status cs. r = FetchResponse True status (JsonData (Some (NoMessage # cs))))"
  by (auto simp: completion_text_def
      split: fetch_outcome.splits json_outcome.splits option.splits list.splits choice.splits)

text \<open>
  Claim C4, as amended. Whatever the transcript and whatever the search, the
  completion request and the provider client do, the promise of
  \<open>performRAGProcess\<close> resolves, so that no exception reaches its caller, and
  \<open>isProcessingRAG\<close> is false when the run ends. With the provider client
  connected when the run resumes after its last \<open>await\<close>: the flag is assigned
  exactly once; a failure while the context is built or in the completion
  (a document whose content is not a string, a request that rejects, a status
  that is not a success, a body that does not parse, \<open>choices\<close> missing or
  empty, a first choice without a message) clears the flag and then hands
  over exactly one assistant turn, which carries the error text; a search
  that throws is a search without documents, and the turn carries the text
  for no results; an answer whose text is empty is no failure, and the empty
  text is handed over. Handing over a turn is sending the assistant item and
  setting the timer of 200 ms; \<open>response.create\<close> follows when the timer expires
  with the client still connected.
\<close>

theorem rag_process_settles:
  "snd (performRAGProcess env q) = Resolved \<and>
   rag_finish env q s = s\<lparr>isProcessingRAG := False\<rparr> \<and>
   (realtime_connected env \<longrightarrow>
      count_list (fst (performRAGProcess env q)) ClearProcessing = 1) \<and>
   (realtime_connected env \<longrightarrow> performRAGSearch (search_result env) \<noteq> [] \<longrightarrow>
    contextText (performRAGSearch (search_result env)) = Inl err \<longrightarrow>
      fst (performRAGProcess env q) =
        [Search q 2, ClearProcessing,
         Send ''conversation.item.create'' (AssistantItem error_text),
         SetTimeout 200 ''response.create'' SpeakResponse]) \<and>
   (realtime_connected env \<longrightarrow> performRAGSearch (search_result env) \<noteq> [] \<longrightarrow>
    contextText (performRAGSearch (search_result env)) = Inr ctx \<longrightarrow>
    isl (completion_text (completion_result env)) \<longrightarrow>
      fst (performRAGProcess env q) =
        [Search q 2, Fetch (completion_request_for ctx q), ClearProcessing,
         Send ''conversation.item.create'' (AssistantItem error_text),
         SetTimeout 200 ''response.create'' SpeakResponse]) \<and>
   (realtime_connected env \<longrightarrow> search_result env = SearchThrows m \<longrightarrow>
      fst (performRAGProcess env q) =
        [Search q 2, ClearProcessing,
         Send ''conversation.item.create'' (AssistantItem no_results_text),
         SetTimeout 200 ''response.create'' SpeakResponse]) \<and>
   (realtime_connected env \<longrightarrow> performRAGSearch (search_result env) \<noteq> [] \<longrightarrow>
    contextText (performRAGSearch (search_result env)) = Inr ctx \<longrightarrow>
    completion_result env = FetchResponse True status (JsonData (Some (Message [] # cs))) \<longrightarrow>
      fst (performRAGProcess env q) =
        [Search q 2, Fetch (completion_request_for ctx q), ClearProcessing,
         Send ''conversation.item.create'' (AssistantItem []),
         SetTimeout 200 ''response.create'' SpeakResponse]) \<and>
   (realtime_connected env \<longrightarrow> realtime_connected_at_timer env \<longrightarrow>
      rag_timers env q = ([Send ''response.create'' SpeakResponse], []))"
proof (intro conjI impI)
  show "snd (performRAGProcess env q) = Resolved"
    by (rule performRAGProcess_resolved)
  show "rag_finish env q s = s\<lparr>isProcessingRAG := False\<rparr>"
    by (rule rag_finish_clears)
  show "count_list (fst (performRAGProcess env q)) ClearProcessing = 1"
    if "realtime_connected env"
    using that by (simp add: performRAGProcess_connected Let_def split: sum.split)
  show "fst (performRAGProcess env q) =
        [Search q 2, ClearProcessing,
         Send ''conversation.item.create'' (AssistantItem error_text),
         SetTimeout 200 ''response.create'' SpeakResponse]"
    if "realtime_connected env" and "performRAGSearch (search_result env) \<noteq> []"
      and "contextText (performRAGSearch (search_result env)) = Inl err"
    using that by (simp add: performRAGProcess_connected)
  show "fst (performRAGProcess env q) =
        [Search q 2, Fetch (completion_request_for ctx q), ClearProcessing,
         Send ''conversation.item.create'' (AssistantItem error_text),
         SetTimeout 200 ''response.create'' SpeakResponse]"
    if "realtime_connected env" and "performRAGSearch (search_result env) \<noteq> []"
      and "contextText (performRAGSearch (search_result env)) = Inr ctx"
      and "isl (completion_text (completion_result env))"
    using that by (cases "completion_text (completion_result env)")
      (simp_all add: performRAGProcess_connected)
  show "fst (performRAGProcess env q) =
        [Search q 2, ClearProcessing,
         Send ''conversation.item.create'' (AssistantItem no_results_text),
         SetTimeout 200 ''response.create'' SpeakResponse]"
    if "realtime_connected env" and "search_result env = SearchThrows m"
    using that by (simp add: performRAGProcess_connected performRAGSearch_def)
  show "fst (performRAGProcess env q) =
        [Search q 2, Fetch (completion_request_for ctx q), ClearProcessing,
         Send ''conversation.item.create'' (AssistantItem []),
         SetTimeout 200 ''response.create'' SpeakResponse]"
    if "realtime_connected env" and "performRAGSearch (search_result env) \<noteq> []"
      and "contextText (performRAGSearch (search_result env)) = Inr ctx"
      and "completion_result env =
             FetchResponse True status (JsonData (Some (Message [] # cs)))"
    using that by (simp add: performRAGProcess_connected completion_text_def)
  show "rag_timers env q = ([Send ''response.create'' SpeakResponse], [])"
    if "realtime_connected env" and "realtime_connected_at_timer env"
    using that by (simp add: rag_timers_connected)
qed

lemma contextText_doc_abc:
  "contextText [doc_abc] = Inr (''Document 1:'' @ newline @ ''abc'')"
  using contextText_texts [of "[doc_abc]" "[''abc'']"]
  by (simp add: doc_abc_def document_content_def document_value_def show_nat_Suc_0)

lemma contextText_doc_number:
  "contextText [doc_abc, doc_number] = Inl (TypeError ''content.substring is not a function'')"
  by (simp add: contextText_def enumerate_eq_zip upt_rec document_entry_def doc_abc_def
      doc_number_def document_content_def document_value_def)

theorem rag_process_settles_witness:
  "fst (performRAGProcess
     (run_env (SearchResults [doc_abc, doc_number]) (FetchThrows []) True True)
     ''opening hours'') =
     [Search ''opening hours'' 2, ClearProcessing,
      Send ''conversation.item.create'' (AssistantItem error_text),
      SetTimeout 200 ''response.create'' SpeakResponse] \<and>
   fst (performRAGProcess
     (run_env (SearchResults [doc_abc]) (FetchResponse False 500 (JsonThrows [])) True True)
     ''opening hours'') =
     [Search ''opening hours'' 2,
      Fetch (completion_request_for (''Document 1:'' @ newline @ ''abc'') ''opening hours''),
      ClearProcessing,
      Send ''conversation.item.create'' (AssistantItem error_text),
      SetTimeout 200 ''response.create'' SpeakResponse] \<and>
   fst (performRAGProcess
     (run_env (SearchThrows ''socket hang up'') (FetchThrows []) True True)
     ''opening hours'') =
     [Search ''opening hours'' 2, ClearProcessing,
      Send ''conversation.item.create'' (AssistantItem no_results_text),
      SetTimeout 200 ''response.create'' SpeakResponse] \<and>
   fst (performRAGProcess
     (run_env (SearchResults [doc_abc])
        (FetchResponse True 200 (JsonData (Some [Message []]))) True True)
     ''opening hours'') =
     [Search ''opening hours'' 2,
      Fetch (completion_request_for (''Document 1:'' @ newline @ ''abc'') ''opening hours''),
      ClearProcessing,
      Send ''conversation.item.create'' (AssistantItem []),
      SetTimeout 200 ''response.create'' SpeakResponse] \<and>
   rag_timers
     (run_env (SearchResults [doc_abc]) (FetchResponse False 500 (JsonThrows [])) True True)
     ''opening hours'' = ([Send ''response.create'' SpeakResponse], []) \<and>
   count_list (fst (performRAGProcess
     (run_env (SearchResults [doc_abc]) (FetchResponse False 500 (JsonThrows [])) True True)
     ''opening hours'')) ClearProcessing = 1 \<and>
   snd (performRAGProcess
     (run_env (SearchResults [doc_abc])
        (FetchResponse True 200 (JsonData (Some [Message ''We open at nine.'']))) False False)
     ''opening hours'') = Resolved \<and>
   \<not> isProcessingRAG (rag_finish
     (run_env (SearchResults [doc_abc])
        (FetchResponse True 200 (JsonData (Some [Message ''We open at nine.'']))) False False)
     ''opening hours'' (one_pair True False True))"
  using rag_process_settles [of
      "run_env (SearchResults [doc_abc, doc_number]) (FetchThrows []) True True"
      "''opening hours''" "one_pair True False True"
      "TypeError ''content.substring is not a function''" "[]" "[]" 0 "[]"]
    rag_process_settles [of
      "run_env (SearchResults [doc_abc]) (FetchResponse False 500 (JsonThrows [])) True True"
      "''opening hours''" "one_pair True False True" "Error []"
      "''Document 1:'' @ newline @ ''abc''" "[]" 0 "[]"]
    rag_process_settles [of
      "run_env (SearchThrows ''socket hang up'') (FetchThrows []) True True"
      "''opening hours''" "one_pair True False True" "Error []" "[]" "''socket hang up''" 0 "[]"]
    rag_process_settles [of
      "run_env (SearchResults [doc_abc])
         (FetchResponse True 200 (JsonData (Some [Message []]))) True True"
      "''opening hours''" "one_pair True False True" "Error []"
      "''Document 1:'' @ newline @ ''abc''" "[]" 200 "[]"]
    rag_process_settles [of
      "run_env (SearchResults [doc_abc])
         (FetchResponse True 200 (JsonData (Some [Message ''We open at nine.'']))) False False"
      "''opening hours''" "one_pair True False True" "Error []" "[]" "[]" 0 "[]"]
  by (simp add: run_env_def performRAGSearch_def completion_text_def contextText_doc_abc
      contextText_doc_number)

text \<open>
  Claim C4 as stated fails in five ways. A search that throws ends in the turn
  for no results, not in the error text. With the provider client
  disconnected when the run resumes, a failed completion hands over nothing,
  and a run that has an answer assigns the flag twice. An answer whose text is
  empty is handed over as it is. And with the client disconnected when the
  timer expires, the callback throws outside every \<open>try\<close> block.
\<close>

theorem rag_process_counterexample:
  "sent_items (fst (performRAGProcess
     (run_env (SearchThrows ''socket hang up'') (FetchThrows []) True True)
     ''opening hours'')) = [no_results_text] \<and>
   no_results_text \<noteq> error_text \<and>
   sent_items (fst (performRAGProcess
     (run_env (SearchResults [doc_abc]) (FetchResponse False 500 (JsonThrows [])) False False)
     ''opening hours'')) = [] \<and>
   count_list (fst (performRAGProcess
     (run_env (SearchResults [doc_abc])
        (FetchResponse True 200 (JsonData (Some [Message ''We open at nine.'']))) False False)
     ''opening hours'')) ClearProcessing = 2 \<and>
   sent_items (fst (performRAGProcess
     (run_env (SearchResults [doc_abc])
        (FetchResponse True 200 (JsonData (Some [Message []]))) True True)
     ''opening hours'')) = [[]] \<and>
   rag_timers
     (run_env (SearchResults [doc_abc]) (FetchResponse False 500 (JsonThrows [])) True False)
     ''opening hours'' = ([], [Error ''RealtimeAPI is not connected''])"
  by (simp add: run_env_def performRAGProcess_connected performRAGProcess_disconnected
      rag_timers_connected performRAGSearch_def completion_text_def contextText_doc_abc
      no_results_text_def error_text_def)

text \<open>
  Claim C5, as amended. When the search yields no documents, the run assigns
  false to \<open>isProcessingRAG\<close> first, the flag is false at the end and no
  completion request is made. With the provider client connected when the run
  resumes after the search, only then, after the flag is cleared, exactly one
  assistant turn with the text for no results is handed over: the item is
  sent and the timer of 200 ms is set, and \<open>response.create\<close> follows when the
  timer expires with the client still connected.
\<close>

theorem rag_no_documents:
  assumes "performRAGSearch (search_result env) = []"
  shows "take 2 (fst (performRAGProcess env q)) = [Search q 2, ClearProcessing] \<and>
         rag_finish env q s = s\<lparr>isProcessingRAG := False\<rparr> \<and>
         (\<forall>r. Fetch r \<notin> set (fst (performRAGProcess env q))) \<and>
         (realtime_connected env \<longrightarrow>
            performRAGProcess env q =
              ([Search q 2, ClearProcessing,
                Send ''conversation.item.create'' (AssistantItem no_results_text),
                SetTimeout 200 ''response.create'' SpeakResponse], Resolved)) \<and>
         (realtime_connected env \<longrightarrow> realtime_connected_at_timer env \<longrightarrow>
            rag_timers env q = ([Send ''response.create'' SpeakResponse], []))"
proof (cases "realtime_connected env")
  case True
  with assms have "fst (performRAGProcess env q) =
      [Search q 2, ClearProcessing,
       Send ''conversation.item.create'' (AssistantItem no_results_text),
       SetTimeout 200 ''response.create'' SpeakResponse]"
    by (simp add: performRAGProcess_connected)
  with True performRAGProcess_resolved [of env q] show ?thesis
    by (cases "performRAGProcess env q") (simp add: rag_finish_clears rag_timers_connected)
next
  case False
  with assms have "fst (performRAGProcess env q) = [Search q 2, ClearProcessing, ClearProcessing]"
    by (simp add: performRAGProcess_disconnected)
  with False show ?thesis
    by (simp add: rag_finish_clears)
qed

theorem rag_no_documents_witness:
  "performRAGSearch (search_result (run_env (SearchResults []) (FetchThrows []) True True)) = [] \<and>
   performRAGProcess (run_env (SearchResults []) (FetchThrows []) True True) ''opening hours'' =
     ([Search ''opening hours'' 2, ClearProcessing,
       Send ''conversation.item.create'' (AssistantItem no_results_text),
       SetTimeout 200 ''response.create'' SpeakResponse], Resolved) \<and>
   rag_timers (run_env (SearchResults []) (FetchThrows []) True True) ''opening hours'' =
     ([Send ''response.create'' SpeakResponse], []) \<and>
   \<not> isProcessingRAG
      (rag_finish (run_env (SearchResults []) (FetchThrows []) True True) ''opening hours''
         (one_pair True False True))"
  using rag_no_documents [of "run_env (SearchResults []) (FetchThrows []) True True"
      "''opening hours''" "one_pair True False True"]
  by (simp add: run_env_def performRAGSearch_def)

text \<open>
  Claim C5 as stated fails when the client socket has closed while the search
  was awaited: the send of the item throws, the \<open>catch\<close> block clears the flag
  again and its own send throws as well, and no turn is handed over. And
  with the client disconnected when the timer expires, the item has been sent
  but \<open>response.create\<close> does not follow.
\<close>

theorem rag_no_documents_counterexample:
  "performRAGProcess (run_env (SearchResults []) (FetchThrows []) False False) ''opening hours'' =
     ([Search ''opening hours'' 2, ClearProcessing, ClearProcessing], Resolved) \<and>
   sent_items (fst (performRAGProcess
     (run_env (SearchResults []) (FetchThrows []) False False) ''opening hours'')) = [] \<and>
   rag_timers (run_env (SearchResults []) (FetchThrows []) True False) ''opening hours'' =
     ([], [Error ''RealtimeAPI is not connected''])"
proof -
  have "fst (performRAGProcess (run_env (SearchResults []) (FetchThrows []) False False)
          ''opening hours'') = [Search ''opening hours'' 2, ClearProcessing, ClearProcessing]"
    by (simp add: run_env_def performRAGProcess_disconnected performRAGSearch_def)
  with performRAGProcess_resolved
    [of "run_env (SearchResults []) (FetchThrows []) False False" "''opening hours''"]
  show ?thesis
    by (cases "performRAGProcess (run_env (SearchResults []) (FetchThrows []) False False)
          ''opening hours''")
      (simp add: rag_timers_connected run_env_def)
qed

text \<open>
  Claim C6, as amended. When the search yields documents \<open>docs\<close>, at least one,
  with the texts \<open>texts\<close>, and the completion answers with a text: the request
  carries the system instruction followed by the context, which joins with
  blank lines, for each index \<open>i\<close>, the label \<open>Document i+1:\<close>, a line break and
  the first 300 characters of the document's text; its user turn is the
  transcript, its limit 200 tokens, its temperature 0.7; and the flag is false
  at the end. With the provider client connected when the run resumes after
  the completion, the flag is cleared and then exactly one assistant turn
  with the answer is handed over: the item is sent and the timer of 200 ms is
  set, and \<open>response.create\<close> follows when the timer expires with the client
  still connected.
\<close>

theorem rag_answer_injected:
  assumes "search_result env = SearchResults docs" and "docs \<noteq> []"
    and "map document_content docs = map Inr texts"
    and "completion_result env = FetchResponse True status (JsonData (Some (Message answer # cs)))"
  shows "take 2 (fst (performRAGProcess env q)) =
           [Search q 2,
            Fetch \<lparr>req_model = ''gpt-3.5-turbo'',
                   req_system =
                     ''You are a helpful assistant. Use this context to answer the question:'' @
                     newline @ newline @
                     join (newline @ newline)
                       (map (\<lambda>i. ''Document '' @ show_nat (i + 1) @ '':'' @ newline @
                                   take 300 (texts ! i)) [0..<length texts]),
                   req_user = q, req_max_tokens = 200, req_temperature = 7 / 10\<rparr>] \<and>
         rag_finish env q s = s\<lparr>isProcessingRAG := False\<rparr> \<and>
         (realtime_connected env \<longrightarrow>
            drop 2 (fst (performRAGProcess env q)) =
              [ClearProcessing,
               Send ''conversation.item.create'' (AssistantItem answer),
               SetTimeout 200 ''response.create'' SpeakResponse] \<and>
            snd (performRAGProcess env q) = Resolved) \<and>
         (realtime_connected env \<longrightarrow> realtime_connected_at_timer env \<longrightarrow>
            rag_timers env q = ([Send ''response.create'' SpeakResponse], []))"
proof -
  from assms(1) have docs: "performRAGSearch (search_result env) = docs"
    by (simp add: performRAGSearch_def)
  note ctx = contextText_texts [OF assms(3)]
  from assms(4) have ans: "completion_text (completion_result env) = Inr answer"
    by (simp add: completion_text_def)
  show ?thesis
  proof (cases "realtime_connected env")
    case True
    with docs ctx ans assms(2) show ?thesis
      by (simp add: performRAGProcess_connected performRAGProcess_resolved rag_finish_clears
          rag_timers_connected completion_request_for_def)
  next
    case False
    with docs ctx ans assms(2) show ?thesis
      by (simp add: performRAGProcess_disconnected rag_finish_clears completion_request_for_def)
  qed
qed

theorem rag_answer_injected_witness:
  "fst (performRAGProcess
     (run_env (SearchResults [doc_abc, doc_text_only])
        (FetchResponse True 200 (JsonData (Some [Message ''We open at nine.'']))) True True)
     ''opening hours'') =
     [Search ''opening hours'' 2,
      Fetch \<lparr>req_model = ''gpt-3.5-turbo'',
             req_system =
               ''You are a helpful assistant. Use this context to answer the question:'' @
               newline @ newline @ ''Document 1:'' @ newline @ ''abc'' @ newline @ newline @
               ''Document 2:'' @ newline @ ''xyz'',
             req_user = ''opening hours'', req_max_tokens = 200, req_temperature = 7 / 10\<rparr>,
      ClearProcessing,
      Send ''conversation.item.create'' (AssistantItem ''We open at nine.''),
      SetTimeout 200 ''response.create'' SpeakResponse] \<and>
   rag_timers
     (run_env (SearchResults [doc_abc, doc_text_only])
        (FetchResponse True 200 (JsonData (Some [Message ''We open at nine.'']))) True True)
     ''opening hours'' = ([Send ''response.create'' SpeakResponse], [])"
proof -
  let ?env = "run_env (SearchResults [doc_abc, doc_text_only])
        (FetchResponse True 200 (JsonData (Some [Message ''We open at nine.'']))) True True"
  have texts: "map document_content [doc_abc, doc_text_only] = map Inr [''abc'', ''xyz'']"
    by (simp add: doc_abc_def doc_text_only_def document_content_def document_value_def)
  have env: "search_result ?env = SearchResults [doc_abc, doc_text_only]"
    "completion_result ?env =
       FetchResponse True 200 (JsonData (Some (Message ''We open at nine.'' # [])))"
    "realtime_connected ?env" "realtime_connected_at_timer ?env"
    by (simp_all add: run_env_def)
  from rag_answer_injected [OF env(1) _ texts env(2), of "''opening hours''"
      "one_pair True False True"] env(3,4)
  have "take 2 (fst (performRAGProcess ?env ''opening hours'')) @
        drop 2 (fst (performRAGProcess ?env ''opening hours'')) =
     [Search ''opening hours'' 2,
      Fetch \<lparr>req_model = ''gpt-3.5-turbo'',
             req_system =
               ''You are a helpful assistant. Use this context to answer the question:'' @
               newline @ newline @ ''Document 1:'' @ newline @ ''abc'' @ newline @ newline @
               ''Document 2:'' @ newline @ ''xyz'',
             req_user = ''opening hours'', req_max_tokens = 200, req_temperature = 7 / 10\<rparr>,
      ClearProcessing,
      Send ''conversation.item.create'' (AssistantItem ''We open at nine.''),
      SetTimeout 200 ''response.create'' SpeakResponse]"
    and "rag_timers ?env ''opening hours'' = ([Send ''response.create'' SpeakResponse], [])"
    by (simp_all add: show_nat_Suc_0 show_nat_Suc_Suc_0 upt_rec)
  then show ?thesis by simp
qed

text \<open>
  Claim C6 as stated fails when the client socket has closed while the
  completion was awaited: the send of the item throws, the \<open>catch\<close> block
  clears the flag a second time and its own send throws as well, and no turn
  is handed over. And with the client disconnected when the timer expires,
  the item has been sent but \<open>response.create\<close> does not follow.
\<close>

theorem rag_answer_injected_counterexample:
  "fst (performRAGProcess
     (run_env (SearchResults [doc_abc])
        (FetchResponse True 200 (JsonData (Some [Message ''We open at nine.'']))) False False)
     ''opening hours'') =
     [Search ''opening hours'' 2,
      Fetch (completion_request_for (''Document 1:'' @ newline @ ''abc'') ''opening hours''),
      ClearProcessing, ClearProcessing] \<and>
   sent_items (fst (performRAGProcess
     (run_env (SearchResults [doc_abc])
        (FetchResponse True 200 (JsonData (Some [Message ''We open at nine.'']))) False False)
     ''opening hours'')) = [] \<and>
   rag_timers
     (run_env (SearchResults [doc_abc])
        (FetchResponse True 200 (JsonData (Some [Message ''We open at nine.'']))) True False)
     ''opening hours'' = ([], [Error ''RealtimeAPI is not connected''])"
  by (simp add: run_env_def performRAGProcess_disconnected rag_timers_connected
      performRAGSearch_def completion_text_def contextText_doc_abc)

section \<open>The relay with retrieval switched off\<close>

lemma server_event_handler_connectionStates:
  "connectionStates (fst (server_event_handler trim w e s)) = connectionStates s"
  by (simp add: server_event_handler_def speech_started_step_def transcript_delta_step_def
      transcript_done_step_def Let_def split: option.split)

lemma server_event_handler_ragMode_on:
  "ragMode_on (fst (server_event_handler trim w e s)) w' = ragMode_on s w'"
  by (simp add: ragMode_on_def server_event_handler_connectionStates)

lemma handler_idle_rag_off:
  assumes "\<not> ragMode_on s w" "\<not> isRAGActiveThisTurn s" "\<not> isProcessingRAG s"
  shows "snd (server_event_handler trim w e s) = [WsSend w e]"
    and "\<not> isRAGActiveThisTurn (fst (server_event_handler trim w e s))"
    and "\<not> isProcessingRAG (fst (server_event_handler trim w e s))"
  using assms
  by (simp_all add: server_event_handler_def speech_started_step_def transcript_delta_step_def
      transcript_done_step_def ragMode_on_def Let_def)

text \<open>
  Claim C7, as amended. For a pair whose \<open>ragMode\<close> is not true, starting with
  neither \<open>isRAGActiveThisTurn\<close> nor \<open>isProcessingRAG\<close> set: whatever provider
  events of the pair are handled, neither flag is ever set and every event
  is relayed to the client unchanged, exactly as the handler of \<open>index.js\<close>
  relays it.
\<close>

theorem rag_disabled_identity:
  assumes "\<not> ragMode_on s w" and "\<not> isRAGActiveThisTurn s" and "\<not> isProcessingRAG s"
  shows "snd (server_events trim w es s) = concat (map (index_server_event_handler w) es) \<and>
         \<not> isRAGActiveThisTurn (fst (server_events trim w es s)) \<and>
         \<not> isProcessingRAG (fst (server_events trim w es s))"
  using assms
proof (induction es arbitrary: s)
  case Nil
  then show ?case by simp
next
  case (Cons e es)
  let ?s1 = "fst (server_event_handler trim w e s)"
  have rag: "\<not> ragMode_on ?s1 w"
    using Cons.prems(1) by (simp add: server_event_handler_ragMode_on)
  from Cons.IH [OF rag handler_idle_rag_off(2,3) [OF Cons.prems]]
    handler_idle_rag_off(1) [OF Cons.prems, of trim e]
  show ?case
    by (simp add: server_events_Cons_fst server_events_Cons_snd index_server_event_handler_def
        del: server_events.simps)
qed

theorem rag_disabled_identity_witness:
  "\<not> ragMode_on (one_pair False False False) 0 \<and>
   server_events trim_blanks 0
     [ev ''input_audio_buffer.speech_started'', ev_delta ''hi'',
      ev ''response.audio_transcript.done'', ev_assistant_item]
     (one_pair False False False) =
   (one_pair False False False,
    [WsSend 0 (ev ''input_audio_buffer.speech_started''), WsSend 0 (ev_delta ''hi''),
     WsSend 0 (ev ''response.audio_transcript.done''), WsSend 0 ev_assistant_item])"
  using rag_disabled_identity [of "one_pair False False False" 0 trim_blanks
     "[ev ''input_audio_buffer.speech_started'', ev_delta ''hi'',
       ev ''response.audio_transcript.done'', ev_assistant_item]"]
  by (simp add: one_pair_def ragMode_on_def index_server_event_handler_def
      server_event_handler_def speech_started_step_def transcript_delta_step_def
      transcript_done_step_def Let_def ev_def ev_delta_def ev_assistant_item_def)

text \<open>
  Claim C7 as stated fails when the flags, which all pairs share, have been set
  on behalf of another pair: pair 1 has \<open>ragMode\<close> false, pair 0 has a run in
  flight, and a \<open>response.done\<close> of pair 1 is not relayed, where the handler of
  \<open>index.js\<close> relays it.
\<close>

theorem rag_disabled_identity_counterexample:
  "\<not> ragMode_on other_pair_processing 1 \<and>
   snd (server_events trim_blanks 1 [ev ''response.done''] other_pair_processing) = [] \<and>
   index_server_event_handler 1 (ev ''response.done'') = [WsSend 1 (ev ''response.done'')]"
  by code_simp

section \<open>The command \<open>rag off\<close>\<close>

lemma rag_off_each_flags:
  "\<not> isRAGActiveThisTurn (rag_off_each w s)" "\<not> isProcessingRAG (rag_off_each w s)"
  by (auto simp: rag_off_each_def Let_def split: option.splits)

lemma rag_off_each_buffer:
  "userTranscriptForRAG (rag_off_each w s) =
     (if isRAGActiveThisTurn s \<or> isProcessingRAG s then [] else userTranscriptForRAG s)"
  by (auto simp: rag_off_each_def Let_def split: option.splits)

lemma rag_off_each_wsConnections:
  "wsConnections (rag_off_each w s) = wsConnections s"
  by (auto simp: rag_off_each_def Let_def split: option.splits)

lemma rag_off_each_ragMode_on:
  "ragMode_on (rag_off_each w s) w' = (w' \<noteq> w \<and> ragMode_on s w')"
  by (auto simp: rag_off_each_def ragMode_on_def Let_def split: option.splits)

lemma fold_rag_off_each_idle:
  "\<not> isRAGActiveThisTurn s \<Longrightarrow> \<not> isProcessingRAG s \<Longrightarrow>
   \<not> isRAGActiveThisTurn (fold rag_off_each ws s) \<and>
   \<not> isProcessingRAG (fold rag_off_each ws s) \<and>
   userTranscriptForRAG (fold rag_off_each ws s) = userTranscriptForRAG s"
proof (induction ws arbitrary: s)
  case Nil
  then show ?case by simp
next
  case (Cons w ws)
  have "\<not> isRAGActiveThisTurn (fold rag_off_each ws (rag_off_each w s)) \<and>
        \<not> isProcessingRAG (fold rag_off_each ws (rag_off_each w s)) \<and>
        userTranscriptForRAG (fold rag_off_each ws (rag_off_each w s)) =
          userTranscriptForRAG (rag_off_each w s)"
    by (rule Cons.IH [OF rag_off_each_flags])
  with Cons.prems show ?case
    by (simp add: rag_off_each_buffer)
qed

lemma fold_rag_off_each_ragMode_on:
  "ragMode_on (fold rag_off_each ws s) w' = (w' \<notin> set ws \<and> ragMode_on s w')"
  by (induction ws arbitrary: s) (auto simp: rag_off_each_ragMode_on)

lemma fold_rag_off_each_reset:
  assumes "ws \<noteq> []" and "isRAGActiveThisTurn s \<or> isProcessingRAG s"
  shows "\<not> isRAGActiveThisTurn (fold rag_off_each ws s) \<and>
         \<not> isProcessingRAG (fold rag_off_each ws s) \<and>
         userTranscriptForRAG (fold rag_off_each ws s) = []"
proof (cases ws)
  case Nil
  with assms(1) show ?thesis by simp
next
  case (Cons w ws')
  have "\<not> isRAGActiveThisTurn (fold rag_off_each ws' (rag_off_each w s)) \<and>
        \<not> isProcessingRAG (fold rag_off_each ws' (rag_off_each w s)) \<and>
        userTranscriptForRAG (fold rag_off_each ws' (rag_off_each w s)) =
          userTranscriptForRAG (rag_off_each w s)"
    by (rule fold_rag_off_each_idle [OF rag_off_each_flags])
  with assms(2) Cons show ?thesis
    by (simp add: rag_off_each_buffer)
qed

lemma clear_processing_idle: "\<not> isProcessingRAG s \<Longrightarrow> s\<lparr>isProcessingRAG := False\<rparr> = s"
  by (cases s) simp

lemma lower_rag_off: "toLowerCase ''Rag Off'' = ''rag off''"
  by code_simp

text \<open>
  With at least one connection tracked, the command does what its comment
  says. When a chat message that takes the \<open>rag off\<close> branch is received while
  \<open>isRAGActiveThisTurn\<close> or \<open>isProcessingRAG\<close> is true: the handler answers 200
  (nothing is thrown), both flags are false and the buffer is empty
  afterwards, and every tracked connection has \<open>ragMode\<close> false. A run that
  was started before is not stopped: it still resolves, and when it ends it
  leaves this state as it is.
\<close>

theorem rag_off_resets_turn:
  assumes "wb_event b = ''participant_events.chat_message''" and "wb_text b = Some t"
    and "wb_has_participant b"
    and "\<not> js_includes (toLowerCase t) ''rag on''" and "js_includes (toLowerCase t) ''rag off''"
    and "wsConnections s \<noteq> []"
    and "isRAGActiveThisTurn s \<or> isProcessingRAG s"
  shows "snd (webhook b s) = Status200 \<and>
         \<not> isRAGActiveThisTurn (fst (webhook b s)) \<and>
         \<not> isProcessingRAG (fst (webhook b s)) \<and>
         userTranscriptForRAG (fst (webhook b s)) = [] \<and>
         (\<forall>w\<in>set (wsConnections s). \<not> ragMode_on (fst (webhook b s)) w) \<and>
         snd (performRAGProcess env q) = Resolved \<and>
         rag_finish env q (fst (webhook b s)) = fst (webhook b s)"
proof -
  have w: "webhook b s = (fold rag_off_each (wsConnections s) s, Status200)"
    using assms(1-5) by (simp add: webhook_def)
  from fold_rag_off_each_reset [OF assms(6,7)] w
  show ?thesis
    by (simp add: fold_rag_off_each_ragMode_on rag_finish_clears clear_processing_idle
        performRAGProcess_resolved)
qed

theorem rag_off_resets_turn_witness:
  "isProcessingRAG (one_pair True False True) \<and>
   snd (webhook (chat_message ''Rag Off'') (one_pair True False True)) = Status200 \<and>
   \<not> isRAGActiveThisTurn (fst (webhook (chat_message ''Rag Off'') (one_pair True False True))) \<and>
   \<not> isProcessingRAG (fst (webhook (chat_message ''Rag Off'') (one_pair True False True))) \<and>
   userTranscriptForRAG (fst (webhook (chat_message ''Rag Off'') (one_pair True False True))) = [] \<and>
   \<not> ragMode_on (fst (webhook (chat_message ''Rag Off'') (one_pair True False True))) 0 \<and>
   rag_finish \<lparr>search_result = SearchResults [], completion_result = FetchThrows [],
               realtime_connected = True, realtime_connected_at_timer = True\<rparr> ''hi''
     (fst (webhook (chat_message ''Rag Off'') (one_pair True False True))) =
   fst (webhook (chat_message ''Rag Off'') (one_pair True False True))"
  using rag_off_resets_turn [of "chat_message ''Rag Off''" "''Rag Off''" "one_pair True False True"
      "\<lparr>search_result = SearchResults [], completion_result = FetchThrows [],
        realtime_connected = True, realtime_connected_at_timer = True\<rparr>" "''hi''"]
  by (simp add: chat_message_def lower_rag_off one_pair_def)

text \<open>
  Claim C8. The command \<open>rag off\<close>, received while \<open>isRAGActiveThisTurn\<close> or
  \<open>isProcessingRAG\<close> is true, is to reset the turn state. The reset is written
  inside the loop over \<open>wsConnections\<close>, so with no connection tracked it does
  not happen: after the only client has left in the middle of a turn,
  \<open>rag off\<close> is answered with 200 and \<open>isRAGActiveThisTurn\<close> is still true. A
  client that connects next, with \<open>ragMode\<close> false, then has its transcript
  captured and a run started.
\<close>

theorem rag_off_without_connections:
  "isRAGActiveThisTurn closed_mid_turn \<and> wsConnections closed_mid_turn = [] \<and>
   snd (webhook (chat_message ''rag off'') closed_mid_turn) = Status200 \<and>
   isRAGActiveThisTurn (fst (webhook (chat_message ''rag off'') closed_mid_turn)) \<and>
   \<not> ragMode_on (on_connection 1 (fst (webhook (chat_message ''rag off'') closed_mid_turn))) 1 \<and>
   snd (server_events trim_blanks 1
          [ev_delta ''hello'', ev ''response.audio_transcript.done'']
          (on_connection 1 (fst (webhook (chat_message ''rag off'') closed_mid_turn)))) =
     [WsSend 1 (ev_delta ''hello''), PerformRAGProcess 1 ''hello'']"
  by code_simp

section \<open>The queue of early client messages\<close>

lemma ws_messages_queued:
  "\<not> isConnected p \<Longrightarrow>
   ws_messages w ds p = (p\<lparr>messageQueue := messageQueue p @ map fst ds\<rparr>, [])"
proof (induction ds arbitrary: p)
  case Nil
  then show ?case by simp
next
  case (Cons x ds)
  obtain d s where x: "x = (d, s)" by (cases x)
  let ?p1 = "p\<lparr>messageQueue := messageQueue p @ [d]\<rparr>"
  have "ws_messages w ds ?p1 = (?p1\<lparr>messageQueue := messageQueue ?p1 @ map fst ds\<rparr>, [])"
    using Cons.prems by (intro Cons.IH) simp
  with Cons.prems x show ?case
    by (simp add: ws_on_message_def)
qed

lemma ws_messages_connected:
  "isConnected p \<Longrightarrow>
   ws_messages w ds p = (p, concat (map (\<lambda>(d, s). messageHandler w d s) ds))"
  by (induction ds) (auto simp: ws_on_message_def)

lemma drain_queue_all:
  "messageQueue p = q \<Longrightarrow>
   drain_queue w s p = (p\<lparr>messageQueue := []\<rparr>, concat (map (\<lambda>d. messageHandler w d s) q))"
proof (induction q arbitrary: p)
  case Nil
  then have "p\<lparr>messageQueue := []\<rparr> = p" by (cases p) simp
  with Nil show ?case by (subst drain_queue.simps) simp
next
  case (Cons d q)
  have "drain_queue w s (p\<lparr>messageQueue := q\<rparr>) =
          (p\<lparr>messageQueue := q\<rparr>\<lparr>messageQueue := []\<rparr>,
           concat (map (\<lambda>d. messageHandler w d s) q))"
    by (rule Cons.IH) simp
  with Cons.prems show ?case by (subst drain_queue.simps) simp
qed

lemma handled_in_order:
  "concat (map (\<lambda>d. messageHandler w d s) ds) =
     map (\<lambda>e. RealtimeSend w (ev_type e) (Forward e))
       (filter (\<lambda>e. \<not> blocked_response_create s e) (parsed_events ds))"
  by (induction ds rule: parsed_events.induct)
    (simp_all add: messageHandler_def blocked_response_create_def)

text \<open>
  Claim C9, as amended. Client messages that arrive before the provider client
  is connected are appended to the queue in order of arrival and nothing is
  sent. When the connection is ready the queue is emptied, and the provider
  receives, in the original order and once each, the queued messages that
  parse and are not a \<open>response.create\<close> dropped because a turn is armed or a
  run is in flight. Messages that arrive afterwards are handled directly, in
  order, after all of these.
\<close>

theorem queue_replayed_in_order:
  "ws_messages w before new_pair =
     (\<lparr>isConnected = False, messageQueue = map fst before\<rparr>, []) \<and>
   after_connect w Connected s \<lparr>isConnected = False, messageQueue = map fst before\<rparr> =
     (\<lparr>isConnected = True, messageQueue = []\<rparr>,
      map (\<lambda>e. RealtimeSend w (ev_type e) (Forward e))
        (filter (\<lambda>e. \<not> blocked_response_create s e) (parsed_events (map fst before)))) \<and>
   ws_messages w later \<lparr>isConnected = True, messageQueue = []\<rparr> =
     (\<lparr>isConnected = True, messageQueue = []\<rparr>,
      concat (map (\<lambda>(d, s'). messageHandler w d s') later))"
proof (intro conjI)
  show "ws_messages w before new_pair =
          (\<lparr>isConnected = False, messageQueue = map fst before\<rparr>, [])"
    by (simp add: ws_messages_queued new_pair_def)
  show "after_connect w Connected s \<lparr>isConnected = False, messageQueue = map fst before\<rparr> =
     (\<lparr>isConnected = True, messageQueue = []\<rparr>,
      map (\<lambda>e. RealtimeSend w (ev_type e) (Forward e))
        (filter (\<lambda>e. \<not> blocked_response_create s e) (parsed_events (map fst before))))"
  proof -
    have "drain_queue w s \<lparr>isConnected = True, messageQueue = map fst before\<rparr> =
            (\<lparr>isConnected = True, messageQueue = map fst before\<rparr>\<lparr>messageQueue := []\<rparr>,
             concat (map (\<lambda>d. messageHandler w d s) (map fst before)))"
      by (rule drain_queue_all) simp
    with handled_in_order [of w s "map fst before"] show ?thesis
      by (simp add: after_connect_def del: map_map)
  qed
  show "ws_messages w later \<lparr>isConnected = True, messageQueue = []\<rparr> =
     (\<lparr>isConnected = True, messageQueue = []\<rparr>,
      concat (map (\<lambda>(d, s'). messageHandler w d s') later))"
    by (simp add: ws_messages_connected)
qed

theorem queue_replayed_in_order_witness:
  "after_connect 0 Connected (one_pair False False False)
     (fst (ws_messages 0
        [(Encoded (ev ''session.update''), initial_server),
         (Malformed ''{oops'', one_pair False False False),
         (Encoded (ev ''response.create''), one_pair False False False)] new_pair)) =
     (\<lparr>isConnected = True, messageQueue = []\<rparr>,
      [RealtimeSend 0 ''session.update'' (Forward (ev ''session.update'')),
       RealtimeSend 0 ''response.create'' (Forward (ev ''response.create''))])"
  using queue_replayed_in_order [of 0
      "[(Encoded (ev ''session.update''), initial_server),
        (Malformed ''{oops'', one_pair False False False),
        (Encoded (ev ''response.create''), one_pair False False False)]"
      "one_pair False False False" "[]"]
  by (simp add: blocked_response_create_def one_pair_def ev_def)

text \<open>
  Claim C9 as stated fails for a queued message that does not parse, and for a
  queued \<open>response.create\<close> when a run is in flight at the moment the connection
  is ready: both were buffered, the queue is emptied, and nothing is delivered.
\<close>

theorem queue_replayed_in_order_counterexample:
  "messageQueue (fst (ws_messages 0
      [(Malformed ''{oops'', initial_server),
       (Encoded (ev ''response.create''), initial_server)] new_pair)) =
     [Malformed ''{oops'', Encoded (ev ''response.create'')] \<and>
   after_connect 0 Connected other_pair_processing
     (fst (ws_messages 0
        [(Malformed ''{oops'', initial_server),
         (Encoded (ev ''response.create''), initial_server)] new_pair)) =
     (\<lparr>isConnected = True, messageQueue = []\<rparr>, [])"
  by code_simp

section \<open>One turn state for all pairs\<close>

text \<open>
  Claim C10. The two flags and the buffer are fields of the one server state
  that the handlers of every pair read and write. When pair \<open>w1\<close> takes a turn
  into a run, a response-construction event of any other pair \<open>w2\<close> is not
  relayed and a \<open>response.create\<close> of the client of \<open>w2\<close> is dropped; and while
  \<open>w1\<close> is capturing, a \<open>speech_started\<close> of \<open>w2\<close> empties the buffer.
\<close>

theorem turn_state_shared_by_all_pairs:
  assumes rag: "ragMode_on s w1"
    and idle: "\<not> isProcessingRAG s"
    and e0: "ev_type e0 = ''input_audio_buffer.speech_started''"
    and ed: "ev_type ed = ''response.audio_transcript.delta''"
    and t: "ev_text ed = Some t"
    and nonblank: "trim t \<noteq> []"
    and e1: "ev_type e1 = ''response.audio_transcript.done''"
    and f0: "ev_type f0 = ''input_audio_buffer.speech_started''"
    and e: "is_response_construction e"
    and c: "ev_type c = ''response.create''"
  shows "isProcessingRAG (fst (server_events trim w1 [e0, ed, e1] s)) \<and>
         snd (server_event_handler trim w2 e (fst (server_events trim w1 [e0, ed, e1] s))) = [] \<and>
         messageHandler w2 (Encoded c) (fst (server_events trim w1 [e0, ed, e1] s)) = [] \<and>
         userTranscriptForRAG (fst (server_events trim w1 [e0, ed] s)) = t \<and>
         userTranscriptForRAG
           (fst (server_event_handler trim w2 f0 (fst (server_events trim w1 [e0, ed] s)))) = []"
proof -
  let ?s0 = "s\<lparr>userTranscriptForRAG := [], isRAGActiveThisTurn := True\<rparr>"
  let ?s1 = "s\<lparr>userTranscriptForRAG := t, isRAGActiveThisTurn := True\<rparr>"
  let ?s2 = "s\<lparr>userTranscriptForRAG := t, isRAGActiveThisTurn := False,
                isProcessingRAG := True\<rparr>"
  have h0: "server_event_handler trim w1 e0 s = (?s0, [WsSend w1 e0])"
    using handler_speech_started [OF e0 idle, of trim w1] rag by simp
  have h1: "server_event_handler trim w1 ed ?s0 = (?s1, [WsSend w1 ed])"
    using handler_delta_armed [OF ed t, of ?s0 trim w1] idle by simp
  have h2: "server_event_handler trim w1 e1 ?s1 = (?s2, [PerformRAGProcess w1 (trim t)])"
    using handler_done_armed [OF e1, of ?s1 trim w1] idle nonblank by simp
  have capture: "fst (server_events trim w1 [e0, ed] s) = ?s1"
    using h0 h1 by simp
  have run: "fst (server_events trim w1 [e0, ed, e1] s) = ?s2"
    using h0 h1 h2 by simp
  have "snd (server_event_handler trim w2 e ?s2) = []"
    using e by (simp add: handler_blocked)
  moreover have "messageHandler w2 (Encoded c) ?s2 = []"
    using c by (simp add: messageHandler_def)
  moreover have "userTranscriptForRAG (fst (server_event_handler trim w2 f0 ?s1)) = []"
    using handler_speech_started [OF f0, of ?s1 trim w2] idle by simp
  ultimately show ?thesis
    unfolding capture run by simp
qed

theorem turn_state_shared_by_all_pairs_witness:
  "ragMode_on two_pairs 0 \<and> \<not> ragMode_on two_pairs 1 \<and> \<not> isProcessingRAG two_pairs \<and>
   trim_blanks ''hi'' \<noteq> [] \<and>
   isProcessingRAG other_pair_processing \<and>
   snd (server_event_handler trim_blanks 1 (ev ''response.audio.delta'') other_pair_processing) = [] \<and>
   messageHandler 1 (Encoded (ev ''response.create'')) other_pair_processing = [] \<and>
   userTranscriptForRAG
     (fst (server_events trim_blanks 0
        [ev ''input_audio_buffer.speech_started'', ev_delta ''hi''] two_pairs)) = ''hi'' \<and>
   userTranscriptForRAG
     (fst (server_event_handler trim_blanks 1 (ev ''input_audio_buffer.speech_started'')
        (fst (server_events trim_blanks 0
           [ev ''input_audio_buffer.speech_started'', ev_delta ''hi''] two_pairs)))) = []"
  using turn_state_shared_by_all_pairs [of two_pairs 0
      "ev ''input_audio_buffer.speech_started''" "ev_delta ''hi''" "''hi''" trim_blanks
      "ev ''response.audio_transcript.done''" "ev ''input_audio_buffer.speech_started''"
      "ev ''response.audio.delta''" "ev ''response.create''" 1]
  apply (simp only: other_pair_processing_def [symmetric])
  apply code_simp
  done

end
